theory Spec2Isabelle
  imports Main "HOL-Library.Word" "HOL-Library.Sublist"
begin

section \<open>Strings\<close>

text \<open>
  An ECMAScript string is a sequence of 16-bit code units. String literals of the
  source that are pure ASCII are written with \<open>lit\<close>.
\<close>

type_synonym code_unit = "16 word"
type_synonym jsstring = "code_unit list"

definition lit :: "string \<Rightarrow> jsstring" where
  "lit s = map of_char s"

definition hyphen :: code_unit where
  "hyphen = 0x2D"

subsection \<open>\<open>String.prototype.toLowerCase\<close>\<close>

text \<open>
  \<open>toLowerCase\<close> applies the locale-independent Unicode lower-case mapping. The
  mapping is written out for the code units up to U+00FF (the letters A to Z and the
  capital letters of Latin-1, U+00D7 being the multiplication sign) and for the two
  characters beyond ASCII whose lower-case form contains an ASCII letter: U+0130
  (capital I with dot above, which becomes \<open>i\<close> followed by U+0307) and U+212A
  (the Kelvin sign, which becomes \<open>k\<close>). Every other code unit is kept as it is:
  the Unicode mapping sends such a character to characters outside ASCII again, so that
  the model and the mapping differ only in code units that are outside \<open>[a-z0-9]\<close>
  before and after.
\<close>

definition lower_unit :: "code_unit \<Rightarrow> jsstring" where
  "lower_unit c =
     (if 0x41 \<le> c \<and> c \<le> 0x5A then [c + 0x20]
      else if 0xC0 \<le> c \<and> c \<le> 0xDE \<and> c \<noteq> 0xD7 then [c + 0x20]
      else if c = 0x130 then [0x69, 0x307]
      else if c = 0x212A then [0x6B]
      else [c])"

definition toLowerCase :: "jsstring \<Rightarrow> jsstring" where
  "toLowerCase s = concat (map lower_unit s)"

subsection \<open>\<open>String.prototype.replace\<close> with a global regular expression\<close>

text \<open>
  A regular expression is represented by its matcher: given whether the current
  position is the start of the input and the input from the current position on, it
  returns the length of the match that starts here, or \<open>None\<close>.

  \<open>replace_all\<close> is the loop of \<open>replace\<close> for a pattern with the \<open>g\<close> flag: the
  input is scanned from left to right, every match is replaced, an unmatched code unit
  is copied, and after an empty match the scan moves on by one code unit.
\<close>

type_synonym matcher = "bool \<Rightarrow> jsstring \<Rightarrow> nat option"

function replace_all :: "matcher \<Rightarrow> jsstring \<Rightarrow> bool \<Rightarrow> jsstring \<Rightarrow> jsstring" where
  "replace_all m rep bos [] = (case m bos [] of None \<Rightarrow> [] | Some n \<Rightarrow> rep)"
| "replace_all m rep bos (c # cs) =
     (case m bos (c # cs) of
        None \<Rightarrow> c # replace_all m rep False cs
      | Some 0 \<Rightarrow> rep @ c # replace_all m rep False cs
      | Some (Suc n) \<Rightarrow> rep @ replace_all m rep False (drop n cs))"
  by pat_completeness auto
termination
  by (relation "measure (\<lambda>(m, rep, bos, s). length s)") auto

text \<open>The character class \<open>[a-z0-9]\<close>.\<close>

definition alnum :: "code_unit \<Rightarrow> bool" where
  "alnum c = ((0x61 \<le> c \<and> c \<le> 0x7A) \<or> (0x30 \<le> c \<and> c \<le> 0x39))"

text \<open>
  The pattern \<open>[^a-z0-9]+\<close>: the quantifier is greedy, so a match takes the longest
  run of code units outside the class, and needs at least one.
\<close>

definition non_alnum_run :: matcher where
  "non_alnum_run bos s =
     (let n = length (takeWhile (\<lambda>c. \<not> alnum c) s)
      in if n = 0 then None else Some n)"

text \<open>
  The pattern \<open>(^-|-$)+\<close>: each round of the group takes one hyphen, either at the
  start of the input (\<open>^-\<close>) or as the last code unit of the input (\<open>-$\<close>); there
  is no \<open>m\<close> flag, so \<open>^\<close> and \<open>$\<close> are the two ends of the whole input.
\<close>

fun edge_hyphen_rounds :: "bool \<Rightarrow> jsstring \<Rightarrow> nat" where
  "edge_hyphen_rounds bos [] = 0"
| "edge_hyphen_rounds bos (c # cs) =
     (if c = hyphen \<and> (bos \<or> cs = []) then Suc (edge_hyphen_rounds False cs) else 0)"

definition edge_hyphens :: matcher where
  "edge_hyphens bos s =
     (let n = edge_hyphen_rounds bos s in if n = 0 then None else Some n)"

subsection \<open>\<open>slugify\<close>\<close>

definition slugify :: "jsstring \<Rightarrow> jsstring" where
  "slugify v =
     replace_all edge_hyphens [] True
       (replace_all non_alnum_run (lit ''-'') True (toLowerCase v))"

subsection \<open>The reference algorithm of the specification\<close>

text \<open>
  The four steps as the specification words them: (a) lower-case the string; (b)
  replace every maximal run of code units outside \<open>[a-z0-9]\<close> with one hyphen; (c)
  strip a leading hyphen if present; (d) strip a trailing hyphen if present.

  \<open>runs P s\<close> cuts \<open>s\<close> into its maximal runs: each run is non-empty, \<open>P\<close> has
  one value on it, and neighbouring runs differ in that value. Step (b) keeps the runs
  inside the class and puts one hyphen for each of the others.
\<close>

fun runs :: "('a \<Rightarrow> bool) \<Rightarrow> 'a list \<Rightarrow> 'a list list" where
  "runs P [] = []"
| "runs P (x # xs) =
     (case runs P xs of
        [] \<Rightarrow> [[x]]
      | r # rs \<Rightarrow> if P x = P (hd r) then (x # r) # rs else [x] # r # rs)"

definition spec_collapse :: "jsstring \<Rightarrow> jsstring" where
  "spec_collapse s = concat (map (\<lambda>r. if alnum (hd r) then r else [hyphen]) (runs alnum s))"

definition strip_leading :: "jsstring \<Rightarrow> jsstring" where
  "strip_leading s = (case s of [] \<Rightarrow> [] | c # cs \<Rightarrow> if c = hyphen then cs else s)"

definition strip_trailing :: "jsstring \<Rightarrow> jsstring" where
  "strip_trailing s = (if s \<noteq> [] \<and> last s = hyphen then butlast s else s)"

definition spec_slugify :: "jsstring \<Rightarrow> jsstring" where
  "spec_slugify s = strip_trailing (strip_leading (spec_collapse (toLowerCase s)))"

text \<open>
  Step (b) once more, as a recursion over the string, for the proofs: a code unit outside
  the class that is followed by another one is not the last of its run and leaves
  nothing; the last one of a run leaves the hyphen.
\<close>

fun collapse :: "jsstring \<Rightarrow> jsstring" where
  "collapse [] = []"
| "collapse [c] = (if alnum c then [c] else [hyphen])"
| "collapse (c # d # cs) =
     (if alnum c then c # collapse (d # cs)
      else if alnum d then hyphen # collapse (d # cs)
      else collapse (d # cs))"

subsection \<open>The shape of a slug\<close>

text \<open>
  The pattern \<open>^[a-z0-9]+(-[a-z0-9]+)*$\<close> as the automaton that reads it: the flag
  says that a code unit of \<open>[a-z0-9]\<close> has to come next (at the start and after a
  hyphen); the input is accepted at its end when nothing is owed. Lemma
  \<open>matches_slug_iff\<close> below reads the pattern as it is written: a non-empty word over
  the class, followed by any number of groups of a hyphen and such a word.
\<close>

fun slug_dfa :: "bool \<Rightarrow> jsstring \<Rightarrow> bool" where
  "slug_dfa owed [] = (\<not> owed)"
| "slug_dfa owed (c # cs) =
     (if alnum c then slug_dfa False cs
      else if c = hyphen \<and> \<not> owed then slug_dfa True cs
      else False)"

definition matches_slug :: "jsstring \<Rightarrow> bool" where
  "matches_slug s = slug_dfa True s"

definition lowercases_into_alnum :: "code_unit \<Rightarrow> bool" where
  "lowercases_into_alnum c = list_ex alnum (lower_unit c)"

definition slug_unit :: "code_unit \<Rightarrow> bool" where
  "slug_unit c = (alnum c \<or> c = hyphen)"

fun no_double_hyphen :: "jsstring \<Rightarrow> bool" where
  "no_double_hyphen (c # d # cs) = (\<not> (c = hyphen \<and> d = hyphen) \<and> no_double_hyphen (d # cs))"
| "no_double_hyphen cs = True"

definition starts_hyphen :: "jsstring \<Rightarrow> bool" where
  "starts_hyphen s = (case s of [] \<Rightarrow> False | c # cs \<Rightarrow> c = hyphen)"

definition ends_hyphen :: "jsstring \<Rightarrow> bool" where
  "ends_hyphen s = (s \<noteq> [] \<and> last s = hyphen)"

definition is_slug :: "jsstring \<Rightarrow> bool" where
  "is_slug s = (list_all slug_unit s \<and> no_double_hyphen s \<and> \<not> starts_hyphen s \<and> \<not> ends_hyphen s)"

section \<open>The content model\<close>

text \<open>
  The three types of the source. An optional field (\<open>notes?\<close>, \<open>code?\<close>) that
  is absent is \<open>None\<close>; one that is present holds its list, which may be empty.
\<close>

record CodeSample =
  caption :: jsstring
  content :: jsstring

record Subtopic =
  title :: jsstring
  summary :: jsstring
  "notes" :: "jsstring list option"
  code :: "CodeSample list option"

record Topic =
  title :: jsstring
  summary :: jsstring
  subtopics :: "Subtopic list"

text \<open>
  The authored content: the literal \<open>topics\<close> of the source. A template literal is
  written line by line; \<open>CHR 0x5C\<close> is the backslash and \<open>CHR 0x27\<close> the
  apostrophe.
\<close>

definition topics :: "Topic list" where
  \<open>topics =
    [\<lparr>Topic.title = lit ''1. Array Fundamentals'',
      Topic.summary = lit
         (''Understand what arrays are in C, how they behave in memory, and why they '' @
          ''are foundational for systems programming.''),
      subtopics =
        [\<lparr>Subtopic.title = lit ''1.1 Definition and Characteristics'',
          Subtopic.summary = lit
             (''An array is a contiguous block of memory that stores elements of the '' @
              ''same type. The array name often decays to a pointer to its first '' @
              ''element, enabling pointer arithmetic.''),
          notes = Some
            [lit
              (''Arrays have a fixed size determined at compile time when declared with '' @
               ''a constant expression length.''),
             lit ''Indexing starts at 0 and continues sequentially until size - 1.'',
             lit
              (''The compiler does not perform bounds checking, so accessing '' @
               ''out-of-range indices causes undefined behavior.'')],
          code = Some
            [\<lparr>caption = lit ''Visualizing Array Layout'',
              content = lit
                 (''#include <stdio.h>\<newline>'' @
                  ''\<newline>'' @
                  ''int main(void) {\<newline>'' @
                  ''    int numbers[4] = {3, 6, 9, 12};\<newline>'' @
                  ''\<newline>'' @
                  ''    printf("numbers: %p'' @ [CHR 0x5C] @ ''n", (void *)numbers);\<newline>'' @
                  ''    for (int i = 0; i < 4; ++i) {\<newline>'' @
                  ''        printf("numbers[%d] = %d at %p'' @ [CHR 0x5C] @ ''n", i, numbers[i], (void *)&numbers[i]);\<newline>'' @
                  ''    }\<newline>'' @
                  ''\<newline>'' @
                  ''    return 0;\<newline>'' @
                  ''}'')\<rparr>]\<rparr>,
         \<lparr>Subtopic.title = lit ''1.2 Compile-Time vs. Run-Time Size'',
          Subtopic.summary = lit
             (''C requires the size of a standard array to be known at compile time, '' @
              ''but C99 introduced Variable Length Arrays (VLAs) for stack allocation '' @
              ''with run-time sizes.''),
          notes = Some
            [lit
              (''VLAs are optional in C11 and later; many compilers still support them, '' @
               ''but portability may suffer.''),
             lit ''Stack size is limited; prefer dynamic allocation for large or unpredictable sizes.''],
          code = Some
            [\<lparr>caption = lit ''Variable Length Array (VLA) Example'',
              content = lit
                 (''#include <stdio.h>\<newline>'' @
                  ''\<newline>'' @
                  ''void print_histogram(int count) {\<newline>'' @
                  ''    int bars[count]; // VLA: size determined at run time\<newline>'' @
                  ''    for (int i = 0; i < count; ++i) {\<newline>'' @
                  ''        bars[i] = i * i;\<newline>'' @
                  ''        printf("%d ", bars[i]);\<newline>'' @
                  ''    }\<newline>'' @
                  ''    puts(""); // newline\<newline>'' @
                  ''}\<newline>'' @
                  ''\<newline>'' @
                  ''int main(void) {\<newline>'' @
                  ''    print_histogram(5);\<newline>'' @
                  ''    return 0;\<newline>'' @
                  ''}'')\<rparr>]\<rparr>]\<rparr>,
     \<lparr>Topic.title = lit ''2. Declaring and Initializing Arrays'',
      Topic.summary = lit
         (''Explore the syntax for declaring arrays, partial initializations, '' @
          ''designated initializers, and how the compiler fills remaining elements.''),
      subtopics =
        [\<lparr>Subtopic.title = lit ''2.1 Declaration Syntax'',
          Subtopic.summary = lit
             (''Array declarations specify the element type, the array name, and the '' @
              ''number of elements enclosed in square brackets.''),
          notes = Some
            [lit
              (''`int scores[10];` declares space for ten `int` values initialized with '' @
               ''indeterminate contents.''),
             lit ''You can declare and initialize simultaneously using curly braces.''],
          code = Some
            [\<lparr>caption = lit ''Basic Declarations'',
              content = lit
                 (''int primes[5];            // uninitialized\<newline>'' @
                  ''double temperature[365];   // element type double\<newline>'' @
                  ''char name[32] = "Ada";      // initialized with string literal'')\<rparr>]\<rparr>,
         \<lparr>Subtopic.title = lit ''2.2 Initializer Lists'',
          Subtopic.summary = lit
             (''Initializer lists allow explicit values. Missing elements are '' @
              ''zero-initialized when using static storage duration or explicit '' @
              ''initializer braces.''),
          notes = Some
            [lit
              (''When the array size is omitted, the compiler infers it from the number '' @
               ''of initializer elements.''),
             lit ''Designated initializers assign values to specific indices while leaving others zeroed.''],
          code = Some
            [\<lparr>caption = lit ''Inferred Length and Designated Initializers'',
              content = lit
                 (''#include <stdio.h>\<newline>'' @
                  ''\<newline>'' @
                  ''int main(void) {\<newline>'' @
                  ''    int fibonacci[] = {0, 1, 1, 2, 3, 5, 8};\<newline>'' @
                  ''    int weekdays[7] = {[0] = 1, [6] = 7};\<newline>'' @
                  ''\<newline>'' @
                  ''    printf("fibonacci has %zu elements'' @ [CHR 0x5C] @ ''n", sizeof fibonacci / sizeof *fibonacci);\<newline>'' @
                  ''    for (size_t i = 0; i < 7; ++i) {\<newline>'' @
                  ''        printf("weekdays[%zu] = %d'' @ [CHR 0x5C] @ ''n", i, weekdays[i]);\<newline>'' @
                  ''    }\<newline>'' @
                  ''    return 0;\<newline>'' @
                  ''}'')\<rparr>]\<rparr>]\<rparr>,
     \<lparr>Topic.title = lit ''3. Memory Layout and Indexing'',
      Topic.summary = lit
         (''Understand how arrays occupy contiguous memory, how `sizeof` works, and '' @
          ''practical indexing techniques.''),
      subtopics =
        [\<lparr>Subtopic.title = lit ''3.1 Using sizeof Safely'',
          Subtopic.summary = lit
             (''`sizeof` helps compute array length within the same scope as the '' @
              ''declaration. Passing arrays to functions removes size information.''),
          notes = Some
            [lit
              (''`sizeof array / sizeof array[0]` yields the number of elements when '' @
               ''`array` is an actual array (not a pointer).''),
             lit
              (''Once an array decays to a pointer (e.g., when passed to a function), '' @
               ''`sizeof` returns the pointer size instead.'')],
          code = Some
            [\<lparr>caption = lit ''Length Calculation Macro'',
              content = lit
                 (''#include <stdio.h>\<newline>'' @
                  ''\<newline>'' @
                  ''#define ARRAY_LEN(arr) ((int)(sizeof(arr) / sizeof((arr)[0])))\<newline>'' @
                  ''\<newline>'' @
                  ''int main(void) {\<newline>'' @
                  ''    int data[] = {4, 8, 15, 16, 23, 42};\<newline>'' @
                  ''    printf("Length = %d'' @ [CHR 0x5C] @ ''n", ARRAY_LEN(data));\<newline>'' @
                  ''    return 0;\<newline>'' @
                  ''}'')\<rparr>]\<rparr>,
         \<lparr>Subtopic.title = lit ''3.2 Bounds Awareness'',
          Subtopic.summary = lit
             (''Because C lacks bounds checking, explicit guards are essential to '' @
              ''prevent buffer overruns and undefined behavior.''),
          notes = Some
            [lit
              (''Always validate indices before use, especially when data originates '' @
               ''from user input or external sources.''),
             lit
              (''Prefer iterating with unsigned types like `size_t` when dealing with '' @
               ''sizes to avoid negative indices.'')],
          code = Some
            [\<lparr>caption = lit ''Safe Indexing Wrapper'',
              content = lit
                 (''#include <stdbool.h>\<newline>'' @
                  ''#include <stdio.h>\<newline>'' @
                  ''\<newline>'' @
                  ''bool array_get(const int *arr, size_t length, size_t index, int *out_value) {\<newline>'' @
                  ''    if (index >= length) {\<newline>'' @
                  ''        return false;\<newline>'' @
                  ''    }\<newline>'' @
                  ''    *out_value = arr[index];\<newline>'' @
                  ''    return true;\<newline>'' @
                  ''}\<newline>'' @
                  ''\<newline>'' @
                  ''int main(void) {\<newline>'' @
                  ''    int values[] = {10, 20, 30, 40};\<newline>'' @
                  ''    int result;\<newline>'' @
                  ''\<newline>'' @
                  ''    if (array_get(values, 4, 2, &result)) {\<newline>'' @
                  ''        printf("values[2] = %d'' @ [CHR 0x5C] @ ''n", result);\<newline>'' @
                  ''    } else {\<newline>'' @
                  ''        puts("Index out of range");\<newline>'' @
                  ''    }\<newline>'' @
                  ''    return 0;\<newline>'' @
                  ''}'')\<rparr>]\<rparr>]\<rparr>,
     \<lparr>Topic.title = lit ''4. Core Operations'',
      Topic.summary = lit
         (''Implement traversal, searching, inserting, and deleting elements using '' @
          ''manual loops because arrays have fixed length.''),
      subtopics =
        [\<lparr>Subtopic.title = lit ''4.1 Traversal and Aggregation'',
          Subtopic.summary = lit
             (''Use loop constructs to process every element. Aggregations like sum or '' @
              ''average require iterating over the complete array.''),
          notes = Some
            [lit ''Prefer `size_t` for loop counters to match the type returned by `sizeof` computations.'',
             lit ''Do not assume arrays are null-terminated unless they represent C strings.''],
          code = Some
            [\<lparr>caption = lit ''Sum and Average'',
              content = lit
                 (''#include <stdio.h>\<newline>'' @
                  ''\<newline>'' @
                  ''double average(const double *values, size_t length) {\<newline>'' @
                  ''    double total = 0.0;\<newline>'' @
                  ''    for (size_t i = 0; i < length; ++i) {\<newline>'' @
                  ''        total += values[i];\<newline>'' @
                  ''    }\<newline>'' @
                  ''    return length ? total / length : 0.0;\<newline>'' @
                  ''}\<newline>'' @
                  ''\<newline>'' @
                  ''int main(void) {\<newline>'' @
                  ''    double samples[] = {2.5, 4.0, 3.5, 1.0};\<newline>'' @
                  ''    printf("Average = %.2f'' @ [CHR 0x5C] @ ''n", average(samples, sizeof samples / sizeof *samples));\<newline>'' @
                  ''    return 0;\<newline>'' @
                  ''}'')\<rparr>]\<rparr>,
         \<lparr>Subtopic.title = lit ''4.2 Searching'',
          Subtopic.summary = lit
             (''Linear search is straightforward. Binary search reduces complexity for '' @
              ''sorted arrays but requires manual implementation or `<stdlib.h>` '' @
              ''utilities.''),
          notes = Some
            [lit ''Return sentinel values (e.g., `-1`) or use `bool` outs to signal success.'',
             lit ''Remember to validate sorted preconditions when using binary search.''],
          code = Some
            [\<lparr>caption = lit ''Linear Search Returning Index'',
              content = lit
                 (''#include <stdio.h>\<newline>'' @
                  ''\<newline>'' @
                  ''int find_index(const int *arr, size_t length, int target) {\<newline>'' @
                  ''    for (size_t i = 0; i < length; ++i) {\<newline>'' @
                  ''        if (arr[i] == target) {\<newline>'' @
                  ''            return (int)i;\<newline>'' @
                  ''        }\<newline>'' @
                  ''    }\<newline>'' @
                  ''    return -1;\<newline>'' @
                  ''}\<newline>'' @
                  ''\<newline>'' @
                  ''int main(void) {\<newline>'' @
                  ''    int arr[] = {7, 2, 9, 4, 6};\<newline>'' @
                  ''    int index = find_index(arr, sizeof arr / sizeof *arr, 4);\<newline>'' @
                  ''    printf("index = %d'' @ [CHR 0x5C] @ ''n", index);\<newline>'' @
                  ''    return 0;\<newline>'' @
                  ''}'')\<rparr>]\<rparr>,
         \<lparr>Subtopic.title = lit ''4.3 Insertion and Deletion'',
          Subtopic.summary = lit
             (''Because arrays are fixed-size, insertion and deletion involve shifting '' @
              ''elements. Track the logical length separately from capacity.''),
          notes = Some
            [lit ''Always check that there is capacity before inserting.'',
             lit ''When deleting, shift elements left and optionally zero the vacated slot for clarity.''],
          code = Some
            [\<lparr>caption = lit ''Manual Insert With Capacity Tracking'',
              content = lit
                 (''#include <stdio.h>\<newline>'' @
                  ''#include <stdbool.h>\<newline>'' @
                  ''\<newline>'' @
                  ''#define CAPACITY 8\<newline>'' @
                  ''\<newline>'' @
                  ''bool insert_at(int arr[], size_t *length, int value, size_t pos) {\<newline>'' @
                  ''    if (*length >= CAPACITY || pos > *length) {\<newline>'' @
                  ''        return false;\<newline>'' @
                  ''    }\<newline>'' @
                  ''    for (size_t i = *length; i > pos; --i) {\<newline>'' @
                  ''        arr[i] = arr[i - 1];\<newline>'' @
                  ''    }\<newline>'' @
                  ''    arr[pos] = value;\<newline>'' @
                  ''    (*length)++;\<newline>'' @
                  ''    return true;\<newline>'' @
                  ''}\<newline>'' @
                  ''\<newline>'' @
                  ''int main(void) {\<newline>'' @
                  ''    int buffer[CAPACITY] = {1, 3, 5, 7, 9};\<newline>'' @
                  ''    size_t length = 5;\<newline>'' @
                  ''\<newline>'' @
                  ''    insert_at(buffer, &length, 11, 2);\<newline>'' @
                  ''\<newline>'' @
                  ''    for (size_t i = 0; i < length; ++i) {\<newline>'' @
                  ''        printf("%d ", buffer[i]);\<newline>'' @
                  ''    }\<newline>'' @
                  ''    puts("");\<newline>'' @
                  ''    return 0;\<newline>'' @
                  ''}'')\<rparr>]\<rparr>]\<rparr>,
     \<lparr>Topic.title = lit ''5. Multidimensional Arrays'',
      Topic.summary = lit
         (''C stores multidimensional arrays in row-major order. Subscripting cascades '' @
          ''to access elements in nested arrays.''),
      subtopics =
        [\<lparr>Subtopic.title = lit ''5.1 Declaration and Initialization'',
          Subtopic.summary = lit
             (''Each dimension size except the first must be specified when passing to '' @
              ''functions. Initialization can flatten or nest braces.''),
          notes = Some
            [lit ''`int matrix[2][3]` allocates 2 rows with 3 columns each.'',
             lit ''Nested initializers clarify row boundaries and reduce mistakes.''],
          code = Some
            [\<lparr>caption = lit ''2D Array Initialization'',
              content = lit
                 (''#include <stdio.h>\<newline>'' @
                  ''\<newline>'' @
                  ''int main(void) {\<newline>'' @
                  ''    int matrix[2][3] = {\<newline>'' @
                  ''        {1, 2, 3},\<newline>'' @
                  ''        {4, 5, 6}\<newline>'' @
                  ''    };\<newline>'' @
                  ''\<newline>'' @
                  ''    for (size_t row = 0; row < 2; ++row) {\<newline>'' @
                  ''        for (size_t col = 0; col < 3; ++col) {\<newline>'' @
                  ''            printf("%d ", matrix[row][col]);\<newline>'' @
                  ''        }\<newline>'' @
                  ''        puts("");\<newline>'' @
                  ''    }\<newline>'' @
                  ''    return 0;\<newline>'' @
                  ''}'')\<rparr>]\<rparr>,
         \<lparr>Subtopic.title = lit ''5.2 Passing Multidimensional Arrays'',
          Subtopic.summary = lit
             (''When passing to functions, all but the first dimension must be fixed so '' @
              ''the compiler can compute row offsets.''),
          notes = Some
            [lit ''Use macros or `const` parameters to make dimensions explicit and maintain readability.'',
             lit ''Pointer syntax such as `int (*matrix)[3]` declares a pointer to an array of 3 integers.''],
          code = Some
            [\<lparr>caption = lit ''Function Receiving 2D Array'',
              content = lit
                 (''#include <stdio.h>\<newline>'' @
                  ''\<newline>'' @
                  ''void print_board(size_t rows, size_t cols, const int board[rows][cols]) {\<newline>'' @
                  ''    for (size_t r = 0; r < rows; ++r) {\<newline>'' @
                  ''        for (size_t c = 0; c < cols; ++c) {\<newline>'' @
                  ''            printf("%d ", board[r][c]);\<newline>'' @
                  ''        }\<newline>'' @
                  ''        puts("");\<newline>'' @
                  ''    }\<newline>'' @
                  ''}\<newline>'' @
                  ''\<newline>'' @
                  ''int main(void) {\<newline>'' @
                  ''    int board[3][3] = {\<newline>'' @
                  ''        {0, 1, 0},\<newline>'' @
                  ''        {1, 0, 1},\<newline>'' @
                  ''        {0, 1, 0}\<newline>'' @
                  ''    };\<newline>'' @
                  ''    print_board(3, 3, board);\<newline>'' @
                  ''    return 0;\<newline>'' @
                  ''}'')\<rparr>]\<rparr>]\<rparr>,
     \<lparr>Topic.title = lit ''6. Arrays and Pointers'',
      Topic.summary = lit
         (''Array names often decay to pointers, but arrays and pointers are not '' @
          ''interchangeable. Understanding differences avoids subtle bugs.''),
      subtopics =
        [\<lparr>Subtopic.title = lit ''6.1 Decay and Differences'',
          Subtopic.summary = lit
             (''An array's name converts to a pointer to its first element in most '' @
              ''expressions, yet `sizeof` and address-of behave differently.''),
          notes = Some
            [lit ''`sizeof array` yields the entire array size, while `sizeof pointer` gives pointer size.'',
             lit ''`&array` has type pointer to array, distinct from pointer to first element.''],
          code = Some
            [\<lparr>caption = lit ''Pointer vs. Array Demonstration'',
              content = lit
                 (''#include <stdio.h>\<newline>'' @
                  ''\<newline>'' @
                  ''int main(void) {\<newline>'' @
                  ''    int data[3] = {10, 20, 30};\<newline>'' @
                  ''    int *ptr = data;        // decay to pointer\<newline>'' @
                  ''\<newline>'' @
                  ''    printf("sizeof data = %zu'' @ [CHR 0x5C] @ ''n", sizeof data);\<newline>'' @
                  ''    printf("sizeof ptr = %zu'' @ [CHR 0x5C] @ ''n", sizeof ptr);\<newline>'' @
                  ''    printf("data address = %p'' @ [CHR 0x5C] @ ''n", (void *)data);\<newline>'' @
                  ''    printf("&data address = %p'' @ [CHR 0x5C] @ ''n", (void *)&data);\<newline>'' @
                  ''    printf("ptr address = %p'' @ [CHR 0x5C] @ ''n", (void *)ptr);\<newline>'' @
                  ''    return 0;\<newline>'' @
                  ''}'')\<rparr>]\<rparr>,
         \<lparr>Subtopic.title = lit ''6.2 Pointer Arithmetic'',
          Subtopic.summary = lit
             (''Pointer arithmetic respects element size. Incrementing a pointer moves '' @
              ''it by the size of the pointed-to type.''),
          notes = Some
            [lit
              (''Never increment past the array's end; keep sentinel pointers to `arr + '' @
               ''length` as bounds.''),
             lit
              (''Pointer subtraction yields the number of elements between two pointers '' @
               ''within the same array.'')],
          code = Some
            [\<lparr>caption = lit ''Iterating with Pointers'',
              content = lit
                 (''#include <stdio.h>\<newline>'' @
                  ''\<newline>'' @
                  ''void print_with_pointers(const int *begin, const int *end) {\<newline>'' @
                  ''    for (const int *it = begin; it < end; ++it) {\<newline>'' @
                  ''        printf("%d ", *it);\<newline>'' @
                  ''    }\<newline>'' @
                  ''    puts("");\<newline>'' @
                  ''}\<newline>'' @
                  ''\<newline>'' @
                  ''int main(void) {\<newline>'' @
                  ''    int numbers[] = {2, 4, 6, 8, 10};\<newline>'' @
                  ''    print_with_pointers(numbers, numbers + (sizeof numbers / sizeof *numbers));\<newline>'' @
                  ''    return 0;\<newline>'' @
                  ''}'')\<rparr>]\<rparr>]\<rparr>,
     \<lparr>Topic.title = lit ''7. Strings as Character Arrays'',
      Topic.summary = lit
         (''C strings are arrays of `char` terminated by a null character (`'' @ [CHR 0x27] @ [CHR 0x5C] @ ''0'`). '' @
          ''Handling them safely requires length checks.''),
      subtopics =
        [\<lparr>Subtopic.title = lit ''7.1 Initialization and Literals'',
          Subtopic.summary = lit
             (''String literals automatically append the null terminator. Ensure arrays '' @
              ''have space for it when specifying fixed sizes.''),
          notes = Some
            [lit (''`char word[] = "C";` creates a 2-element array: `{'C', '' @ [CHR 0x27] @ [CHR 0x5C] @ ''0'}`.''),
             lit
              (''When copying strings, use functions that limit writes, such as '' @
               ''`snprintf` or `strncpy` (with manual terminator).'')],
          code = Some
            [\<lparr>caption = lit ''Safe String Copy Utility'',
              content = lit
                 (''#include <stdio.h>\<newline>'' @
                  ''#include <string.h>\<newline>'' @
                  ''\<newline>'' @
                  ''void copy_label(char *dest, size_t dest_size, const char *source) {\<newline>'' @
                  ''    if (dest_size == 0) {\<newline>'' @
                  ''        return;\<newline>'' @
                  ''    }\<newline>'' @
                  ''    snprintf(dest, dest_size, "%s", source);\<newline>'' @
                  ''}\<newline>'' @
                  ''\<newline>'' @
                  ''int main(void) {\<newline>'' @
                  ''    char label[8];\<newline>'' @
                  ''    copy_label(label, sizeof label, "Arrays");\<newline>'' @
                  ''    printf("label = %s'' @ [CHR 0x5C] @ ''n", label);\<newline>'' @
                  ''    return 0;\<newline>'' @
                  ''}'')\<rparr>]\<rparr>,
         \<lparr>Subtopic.title = lit ''7.2 Iterating Over Strings'',
          Subtopic.summary = lit
             (''Terminate loops when the null character is encountered. Avoid '' @
              ''overrunning buffers by checking maximum length.''),
          notes = Some
            [lit ''Use `size_t` counters and guard conditions to prevent reading beyond the buffer.'',
             lit ''For embedded nulls, treat data as raw arrays rather than C strings.''],
          code = Some
            [\<lparr>caption = lit ''Manual strlen Implementation'',
              content = lit
                 (''#include <stdio.h>\<newline>'' @
                  ''\<newline>'' @
                  ''size_t my_strlen(const char *s) {\<newline>'' @
                  ''    const char *p = s;\<newline>'' @
                  ''    while (*p) {\<newline>'' @
                  ''        ++p;\<newline>'' @
                  ''    }\<newline>'' @
                  ''    return (size_t)(p - s);\<newline>'' @
                  ''}\<newline>'' @
                  ''\<newline>'' @
                  ''int main(void) {\<newline>'' @
                  ''    const char message[] = "Array Notes";\<newline>'' @
                  ''    printf("Length = %zu'' @ [CHR 0x5C] @ ''n", my_strlen(message));\<newline>'' @
                  ''    return 0;\<newline>'' @
                  ''}'')\<rparr>]\<rparr>]\<rparr>,
     \<lparr>Topic.title = lit ''8. Dynamic Arrays'',
      Topic.summary = lit
         (''Use dynamic allocation for arrays whose size is known only at run time or '' @
          ''exceeds stack limits.''),
      subtopics =
        [\<lparr>Subtopic.title = lit ''8.1 malloc, calloc, and realloc'',
          Subtopic.summary = lit
             (''`malloc` allocates uninitialized memory, `calloc` zeroes it, and '' @
              ''`realloc` resizes while preserving contents when possible.''),
          notes = Some
            [lit ''Always check allocation results against `NULL` before dereferencing.'',
             lit ''Pair each successful allocation with `free` to avoid memory leaks.''],
          code = Some
            [\<lparr>caption = lit ''Resizable Dynamic Array'',
              content = lit
                 (''#include <stdio.h>\<newline>'' @
                  ''#include <stdlib.h>\<newline>'' @
                  ''\<newline>'' @
                  ''typedef struct {\<newline>'' @
                  ''    int *data;\<newline>'' @
                  ''    size_t length;\<newline>'' @
                  ''    size_t capacity;\<newline>'' @
                  ''} IntVector;\<newline>'' @
                  ''\<newline>'' @
                  ''int vector_push(IntVector *vec, int value) {\<newline>'' @
                  ''    if (vec->length == vec->capacity) {\<newline>'' @
                  ''        size_t new_capacity = vec->capacity ? vec->capacity * 2 : 4;\<newline>'' @
                  ''        int *new_data = realloc(vec->data, new_capacity * sizeof *new_data);\<newline>'' @
                  ''        if (!new_data) {\<newline>'' @
                  ''            return -1;\<newline>'' @
                  ''        }\<newline>'' @
                  ''        vec->data = new_data;\<newline>'' @
                  ''        vec->capacity = new_capacity;\<newline>'' @
                  ''    }\<newline>'' @
                  ''    vec->data[vec->length++] = value;\<newline>'' @
                  ''    return 0;\<newline>'' @
                  ''}\<newline>'' @
                  ''\<newline>'' @
                  ''void vector_free(IntVector *vec) {\<newline>'' @
                  ''    free(vec->data);\<newline>'' @
                  ''    vec->data = NULL;\<newline>'' @
                  ''    vec->length = vec->capacity = 0;\<newline>'' @
                  ''}\<newline>'' @
                  ''\<newline>'' @
                  ''int main(void) {\<newline>'' @
                  ''    IntVector vec = {0};\<newline>'' @
                  ''    for (int i = 0; i < 10; ++i) {\<newline>'' @
                  ''        if (vector_push(&vec, i * i) != 0) {\<newline>'' @
                  ''            fprintf(stderr, "Allocation failure'' @ [CHR 0x5C] @ ''n");\<newline>'' @
                  ''            vector_free(&vec);\<newline>'' @
                  ''            return 1;\<newline>'' @
                  ''        }\<newline>'' @
                  ''    }\<newline>'' @
                  ''    for (size_t i = 0; i < vec.length; ++i) {\<newline>'' @
                  ''        printf("%d ", vec.data[i]);\<newline>'' @
                  ''    }\<newline>'' @
                  ''    puts("");\<newline>'' @
                  ''    vector_free(&vec);\<newline>'' @
                  ''    return 0;\<newline>'' @
                  ''}'')\<rparr>]\<rparr>,
         \<lparr>Subtopic.title = lit ''8.2 Flexible Array Members'',
          Subtopic.summary = lit
             (''A flexible array member is a struct's last element declared with empty '' @
              ''brackets, enabling variable-sized trailing storage.''),
          notes = Some
            [lit ''Allocate memory with `sizeof(struct) + element_count * sizeof(type)`.'',
             lit
              (''Commonly used for packet parsing or compound objects that combine '' @
               ''metadata with data payloads.'')],
          code = Some
            [\<lparr>caption = lit ''Flexible Array Member Pattern'',
              content = lit
                 (''#include <stdio.h>\<newline>'' @
                  ''#include <stdlib.h>\<newline>'' @
                  ''#include <string.h>\<newline>'' @
                  ''\<newline>'' @
                  ''typedef struct {\<newline>'' @
                  ''    size_t length;\<newline>'' @
                  ''    char text[];\<newline>'' @
                  ''} StringBlob;\<newline>'' @
                  ''\<newline>'' @
                  ''StringBlob *stringblob_create(const char *source) {\<newline>'' @
                  ''    size_t len = strlen(source);\<newline>'' @
                  ''    StringBlob *blob = malloc(sizeof *blob + (len + 1) * sizeof(char));\<newline>'' @
                  ''    if (!blob) {\<newline>'' @
                  ''        return NULL;\<newline>'' @
                  ''    }\<newline>'' @
                  ''    blob->length = len;\<newline>'' @
                  ''    memcpy(blob->text, source, len + 1);\<newline>'' @
                  ''    return blob;\<newline>'' @
                  ''}\<newline>'' @
                  ''\<newline>'' @
                  ''int main(void) {\<newline>'' @
                  ''    StringBlob *blob = stringblob_create("Contiguous arrays rock!");\<newline>'' @
                  ''    if (!blob) {\<newline>'' @
                  ''        return 1;\<newline>'' @
                  ''    }\<newline>'' @
                  ''    printf("Stored: %s (%zu chars)'' @ [CHR 0x5C] @ ''n", blob->text, blob->length);\<newline>'' @
                  ''    free(blob);\<newline>'' @
                  ''    return 0;\<newline>'' @
                  ''}'')\<rparr>]\<rparr>]\<rparr>,
     \<lparr>Topic.title = lit ''9. Arrays and Functions'',
      Topic.summary = lit
         (''Passing arrays to functions requires explicit size communication. `const` '' @
          ''qualifiers document intent and enable more optimizations.''),
      subtopics =
        [\<lparr>Subtopic.title = lit ''9.1 Function Parameters'',
          Subtopic.summary = lit
             (''Declaring parameters as `int arr[]`, `int arr[static N]`, or `int *arr` '' @
              ''are equivalent, but qualifiers like `static` can instruct the compiler '' @
              ''about minimum size.''),
          notes = Some
            [lit
              (''`static` in parameter declarations indicates that the pointer argument '' @
               ''must address at least the specified number of elements.''),
             lit
              (''Use `restrict` in C99+ when pointers refer to non-overlapping objects '' @
               ''to help vectorization.'')],
          code = Some
            [\<lparr>caption = lit ''Using static in Parameters'',
              content = lit
                 (''#include <stddef.h>\<newline>'' @
                  ''#include <stdio.h>\<newline>'' @
                  ''\<newline>'' @
                  ''void normalize(double values[static 4], size_t length) {\<newline>'' @
                  ''    double max = 0.0;\<newline>'' @
                  ''    for (size_t i = 0; i < length; ++i) {\<newline>'' @
                  ''        if (values[i] > max) {\<newline>'' @
                  ''            max = values[i];\<newline>'' @
                  ''        }\<newline>'' @
                  ''    }\<newline>'' @
                  ''    if (max == 0.0) {\<newline>'' @
                  ''        return;\<newline>'' @
                  ''    }\<newline>'' @
                  ''    for (size_t i = 0; i < length; ++i) {\<newline>'' @
                  ''        values[i] /= max;\<newline>'' @
                  ''    }\<newline>'' @
                  ''}\<newline>'' @
                  ''\<newline>'' @
                  ''int main(void) {\<newline>'' @
                  ''    double metrics[] = {4.0, 8.0, 2.0, 6.0};\<newline>'' @
                  ''    normalize(metrics, sizeof metrics / sizeof *metrics);\<newline>'' @
                  ''    for (size_t i = 0; i < sizeof metrics / sizeof *metrics; ++i) {\<newline>'' @
                  ''        printf("%.2f ", metrics[i]);\<newline>'' @
                  ''    }\<newline>'' @
                  ''    puts("");\<newline>'' @
                  ''    return 0;\<newline>'' @
                  ''}'')\<rparr>]\<rparr>,
         \<lparr>Subtopic.title = lit ''9.2 Returning Arrays'',
          Subtopic.summary = lit
             (''Functions cannot return arrays directly, but you can return pointers to '' @
              ''static storage, dynamically allocated memory, or wrap arrays in structs.''),
          notes = Some
            [lit
              (''Returning pointers to local arrays is undefined because the storage '' @
               ''ceases to exist after the function exits.''),
             lit ''Struct wrappers provide value semantics and can be copied or returned safely.''],
          code = Some
            [\<lparr>caption = lit ''Struct Wrapper Return'',
              content = lit
                 (''#include <stdio.h>\<newline>'' @
                  ''\<newline>'' @
                  ''typedef struct {\<newline>'' @
                  ''    double values[3];\<newline>'' @
                  ''} Triple;\<newline>'' @
                  ''\<newline>'' @
                  ''Triple make_unit_vector(void) {\<newline>'' @
                  ''    Triple t = {{1.0, 0.0, 0.0}};\<newline>'' @
                  ''    return t;\<newline>'' @
                  ''}\<newline>'' @
                  ''\<newline>'' @
                  ''int main(void) {\<newline>'' @
                  ''    Triple x = make_unit_vector();\<newline>'' @
                  ''    printf("(%.1f, %.1f, %.1f)'' @ [CHR 0x5C] @ ''n", x.values[0], x.values[1], x.values[2]);\<newline>'' @
                  ''    return 0;\<newline>'' @
                  ''}'')\<rparr>]\<rparr>]\<rparr>,
     \<lparr>Topic.title = lit ''10. Best Practices and Common Pitfalls'',
      Topic.summary = lit
         (''Finish with patterns and guidelines to write safer, more maintainable code '' @
          ''when working with arrays in C.''),
      subtopics =
        [\<lparr>Subtopic.title = lit ''10.1 Best Practices Checklist'',
          Subtopic.summary = lit
             (''Apply these heuristics to make array usage more robust, '' @
              ''self-documenting, and efficient.''),
          notes = Some
            [lit ''Encapsulate array logic in helper functions that take lengths explicitly.'',
             lit ''Favor `const` where possible to signal read-only intent.'',
             lit ''Use enums or macros to centralize array sizes and prevent mismatches.'',
             lit ''Prefer standard library algorithms (`qsort`, `bsearch`) when they fit the task.''],
          code = None\<rparr>,
         \<lparr>Subtopic.title = lit ''10.2 Common Mistakes to Avoid'',
          Subtopic.summary = lit
             (''Recognize recurring pitfalls and undefined behaviors associated with '' @
              ''array misuse.''),
          notes = Some
            [lit ''Do not return pointers to stack-allocated arrays.'',
             lit
              (''Avoid mixing pointer arithmetic with incorrect units (e.g., adding '' @
               ''bytes instead of elements).''),
             lit
              (''Beware of off-by-one errors when iterating over indices; always '' @
               ''double-check loop bounds.''),
             lit ''Remember to allocate space for the null terminator when working with strings.''],
          code = Some
            [\<lparr>caption = lit ''Off-by-One Bug and Fix'',
              content = lit
                 (''#include <stdio.h>\<newline>'' @
                  ''\<newline>'' @
                  ''int main(void) {\<newline>'' @
                  ''    int data[5] = {1, 2, 3, 4, 5};\<newline>'' @
                  ''\<newline>'' @
                  ''    // Buggy: writes past the end when i == 5\<newline>'' @
                  ''    for (size_t i = 0; i <= 5; ++i) {\<newline>'' @
                  ''        data[i] = 0; // Undefined behavior when i == 5\<newline>'' @
                  ''    }\<newline>'' @
                  ''\<newline>'' @
                  ''    // Fixed loop\<newline>'' @
                  ''    for (size_t i = 0; i < 5; ++i) {\<newline>'' @
                  ''        data[i] = 0;\<newline>'' @
                  ''    }\<newline>'' @
                  ''\<newline>'' @
                  ''    for (size_t i = 0; i < 5; ++i) {\<newline>'' @
                  ''        printf("%d ", data[i]);\<newline>'' @
                  ''    }\<newline>'' @
                  ''    puts("");\<newline>'' @
                  ''    return 0;\<newline>'' @
                  ''}'')\<rparr>]\<rparr>]\<rparr>]\<close>

section \<open>The renderer\<close>

text \<open>
  The markup that the component returns is a tree of elements and text nodes. An element
  has its tag, its React \<open>key\<close> if it has one, its attributes in the order of the
  source, and its children. An attribute value is a string, or \<open>Style k\<close> for
  \<open>styles.k\<close>, the class name that the stylesheet module holds under the key
  \<open>k\<close>. An expression child that is \<open>undefined\<close> leaves no node.
\<close>

datatype attr_value = Str jsstring | Style string

datatype node =
    Element string "jsstring option" "(string \<times> attr_value) list" "node list"
  | Text jsstring

text \<open>
  The four callbacks of the \<open>map\<close> calls, innermost first, and then the body of
  \<open>Home\<close> over a content model \<open>ts\<close>; \<open>Home\<close> itself renders \<open>topics\<close>.
\<close>

definition render_sample :: "Subtopic \<Rightarrow> CodeSample \<Rightarrow> node" where
  "render_sample subtopic sample =
     Element ''figure'' (Some (Subtopic.title subtopic @ lit ''-'' @ caption sample))
       [(''className'', Style ''codeSample'')]
       [Element ''figcaption'' None [] [Text (caption sample)],
        Element ''pre'' None [] [Element ''code'' None [] [Text (content sample)]]]"

definition render_subtopic :: "Subtopic \<Rightarrow> node" where
  "render_subtopic subtopic =
     Element ''section'' (Some (Subtopic.title subtopic))
       [(''id'', Str (slugify (Subtopic.title subtopic))), (''className'', Style ''subtopic'')]
       ([Element ''h3'' None [] [Text (Subtopic.title subtopic)],
         Element ''p'' None [] [Text (Subtopic.summary subtopic)]]
        @ (case notes subtopic of
             None \<Rightarrow> []
           | Some ns \<Rightarrow>
               [Element ''ul'' None [(''className'', Style ''notes'')]
                  (map (\<lambda>note. Element ''li'' (Some note) [] [Text note]) ns)])
        @ (case code subtopic of
             None \<Rightarrow> []
           | Some cs \<Rightarrow>
               [Element ''div'' None [(''className'', Style ''codeGroup'')]
                  (map (render_sample subtopic) cs)]))"

definition render_topic :: "Topic \<Rightarrow> node" where
  "render_topic topic =
     Element ''article'' (Some (Topic.title topic))
       [(''id'', Str (slugify (Topic.title topic))), (''className'', Style ''topic'')]
       [Element ''h2'' None [] [Text (Topic.title topic)],
        Element ''p'' None [(''className'', Style ''topicSummary'')] [Text (Topic.summary topic)],
        Element ''div'' None [(''className'', Style ''subtopics'')]
          (map render_subtopic (subtopics topic))]"

definition render_nav_entry :: "Topic \<Rightarrow> node" where
  "render_nav_entry topic =
     Element ''li'' (Some (Topic.title topic)) []
       [Element ''a'' None [(''href'', Str (lit ''#'' @ slugify (Topic.title topic)))]
          [Text (Topic.title topic)]]"

definition render :: "Topic list \<Rightarrow> node" where
  "render ts =
     Element ''div'' None [(''className'', Style ''page'')]
       [Element ''main'' None [(''className'', Style ''main'')]
          [Element ''header'' None [(''className'', Style ''hero'')]
             [Element ''p'' None [(''className'', Style ''kicker'')]
                [Text (lit ''Mastering Core C Constructs'')],
              Element ''h1'' None []
                [Text (lit ''Arrays in C '' @ [0x2014] @ lit '' Comprehensive Notes & Examples'')],
              Element ''p'' None [(''className'', Style ''lede'')]
                [Text (lit
                   (''A structured reference covering fundamentals, memory behavior, '' @
                    ''multi-dimensional arrays, pointer interplay, dynamic allocation, and '' @
                    ''best practices. Each topic includes concise explanations and '' @
                    ''runnable sample programs.''))],
              Element ''nav'' None [(''className'', Style ''toc'')]
                [Element ''p'' None [(''className'', Style ''tocHeading'')]
                   [Text (lit ''Quick Navigation'')],
                 Element ''ul'' None [] (map render_nav_entry ts)]],
           Element ''section'' None [(''className'', Style ''topics'')] (map render_topic ts),
           Element ''footer'' None [(''className'', Style ''footer'')]
             [Element ''p'' None []
                [Text (lit
                   (''Need a printable copy? Export this page to PDF or integrate the code '' @
                    ''snippets into your favorite editor to compile and experiment.''))]]]]"

definition Home :: node where
  "Home = render topics"

section \<open>Reading the markup\<close>

text \<open>
  \<open>elements\<close> lists the elements of a tree in document order, \<open>select\<close> those
  that satisfy a test.
\<close>

fun elements :: "node \<Rightarrow> node list" where
  "elements (Element t k as cs) = Element t k as cs # concat (map elements cs)"
| "elements (Text s) = []"

fun has_tag :: "string \<Rightarrow> node \<Rightarrow> bool" where
  "has_tag t (Element t' k as cs) = (t = t')"
| "has_tag t (Text s) = False"

fun attr :: "string \<Rightarrow> node \<Rightarrow> attr_value option" where
  "attr a (Element t k as cs) = map_of as a"
| "attr a (Text s) = None"

fun children :: "node \<Rightarrow> node list" where
  "children (Element t k as cs) = cs"
| "children (Text s) = []"

definition has_class :: "string \<Rightarrow> node \<Rightarrow> bool" where
  "has_class c n = (attr ''className'' n = Some (Style c))"

definition select :: "(node \<Rightarrow> bool) \<Rightarrow> node \<Rightarrow> node list" where
  "select P n = filter P (elements n)"

text \<open>
  The parts of the page that the claims speak of, each found by tag and class name: the
  entries of the navigation list and the link in each, the topic sections
  (\<open>article\<close>), the subtopic sections, the notes lists and their items, the code
  groups and the figures. \<open>heading\<close> is the first child of a section, \<open>sample_view\<close>
  what a figure shows as caption and as code.
\<close>

definition nav_items :: "node \<Rightarrow> node list" where
  "nav_items n = concat (map (select (has_tag ''li'')) (select (has_tag ''nav'') n))"

fun nav_link :: "node \<Rightarrow> (jsstring \<times> jsstring) option" where
  "nav_link (Element t k as [Element t' k' as' [Text label]]) =
     (if t' = ''a'' then
        (case map_of as' ''href'' of Some (Str target) \<Rightarrow> Some (target, label) | _ \<Rightarrow> None)
      else None)"
| "nav_link n = None"

definition topic_sections :: "node \<Rightarrow> node list" where
  "topic_sections n = select (has_tag ''article'') n"

definition subtopic_sections :: "node \<Rightarrow> node list" where
  "subtopic_sections n = select (\<lambda>m. has_tag ''section'' m \<and> has_class ''subtopic'' m) n"

definition note_lists :: "node \<Rightarrow> node list" where
  "note_lists n = select (\<lambda>m. has_tag ''ul'' m \<and> has_class ''notes'' m) n"

definition note_items :: "node \<Rightarrow> node list" where
  "note_items n = concat (map (select (has_tag ''li'')) (note_lists n))"

definition code_groups :: "node \<Rightarrow> node list" where
  "code_groups n = select (\<lambda>m. has_tag ''div'' m \<and> has_class ''codeGroup'' m) n"

definition figures :: "node \<Rightarrow> node list" where
  "figures n = select (has_tag ''figure'') n"

fun heading :: "node \<Rightarrow> (string \<times> node list) option" where
  "heading (Element t k as (Element t' k' as' cs' # cs)) = Some (t', cs')"
| "heading n = None"

definition sample_view :: "node \<Rightarrow> node list list \<times> node list list" where
  "sample_view fig =
     (map children (select (has_tag ''figcaption'') fig),
      map children (concat (map (select (has_tag ''code'')) (select (has_tag ''pre'') fig))))"

text \<open>The content model in document order.\<close>

definition all_subtopics :: "Topic list \<Rightarrow> Subtopic list" where
  "all_subtopics ts = concat (map subtopics ts)"

definition notes_of :: "Subtopic \<Rightarrow> jsstring list" where
  "notes_of s = (case notes s of None \<Rightarrow> [] | Some ns \<Rightarrow> ns)"

definition samples_of :: "Subtopic \<Rightarrow> CodeSample list" where
  "samples_of s = (case code s of None \<Rightarrow> [] | Some cs \<Rightarrow> cs)"

definition all_samples :: "Topic list \<Rightarrow> CodeSample list" where
  "all_samples ts = concat (map samples_of (all_subtopics ts))"

definition all_titles :: "Topic list \<Rightarrow> jsstring list" where
  "all_titles ts = concat (map (\<lambda>t. Topic.title t # map Subtopic.title (subtopics t)) ts)"

section \<open>Properties of \<open>slugify\<close>\<close>

subsection \<open>The two replacements, equation by equation\<close>

lemma lit_hyphen: "lit ''-'' = [hyphen]"
  by (simp add: lit_def hyphen_def)

lemma hyphen_not_alnum: "\<not> alnum hyphen"
  by (simp add: alnum_def hyphen_def)

lemma collapse_Nil: "replace_all non_alnum_run r b [] = []"
  by (simp add: non_alnum_run_def)

lemma collapse_alnum:
  "alnum c \<Longrightarrow> replace_all non_alnum_run r b (c # cs) = c # replace_all non_alnum_run r False cs"
  by (simp add: non_alnum_run_def)

lemma collapse_other:
  "\<not> alnum c \<Longrightarrow> replace_all non_alnum_run r b (c # cs) =
     r @ replace_all non_alnum_run r False (dropWhile (\<lambda>c. \<not> alnum c) cs)"
  by (simp add: non_alnum_run_def dropWhile_eq_drop)

lemma rounds_False: "edge_hyphen_rounds False cs = (if cs = [hyphen] then 1 else 0)"
  by (cases cs) auto

lemma strip_Nil: "replace_all edge_hyphens r b [] = []"
  by (simp add: edge_hyphens_def)

lemma strip_Cons:
  "replace_all edge_hyphens [] b (c # cs) =
     (if c = hyphen \<and> (b \<or> cs = []) then replace_all edge_hyphens [] False cs
      else c # replace_all edge_hyphens [] False cs)"
  by (auto simp add: edge_hyphens_def rounds_False)

lemma collapse_flag: "replace_all non_alnum_run r b s = replace_all non_alnum_run r False s"
  by (cases s) (simp_all add: non_alnum_run_def)

declare replace_all.simps [simp del]

lemma collapse_rec: "replace_all non_alnum_run [hyphen] False s = collapse s"
proof (induction s rule: collapse.induct)
  case 1
  show ?case by (simp add: collapse_Nil)
next
  case (2 c)
  show ?case by (cases "alnum c") (simp_all add: collapse_Nil collapse_alnum collapse_other)
next
  case (3 c d cs)
  show ?case
  proof (cases "alnum c")
    case True
    with 3 show ?thesis by (simp add: collapse_alnum)
  next
    case False
    show ?thesis
    proof (cases "alnum d")
      case True
      with False 3 show ?thesis by (simp add: collapse_other)
    next
      case dF: False
      have "replace_all non_alnum_run [hyphen] False (c # d # cs) =
            replace_all non_alnum_run [hyphen] False (d # cs)"
        using False dF by (simp add: collapse_other)
      with False dF 3 show ?thesis by simp
    qed
  qed
qed

text \<open>The runs of a string: they make up the string, none is empty, the test has one
  value on each, and neighbours differ in it.\<close>

lemma runs_Cons: "\<exists>r rs. runs P (x # xs) = (x # r) # rs"
  by (induction xs arbitrary: x) (auto split: list.splits)

lemma concat_runs: "concat (runs P xs) = xs"
  by (induction xs) (auto split: list.splits)

lemma runs_nonempty: "[] \<notin> set (runs P xs)"
  by (induction xs) (auto split: list.splits)

lemma runs_uniform: "r \<in> set (runs P xs) \<Longrightarrow> x \<in> set r \<Longrightarrow> P x = P (hd r)"
proof (induction xs arbitrary: r x)
  case Nil
  then show ?case by simp
next
  case (Cons a xs)
  show ?case
  proof (cases "runs P xs")
    case Nil
    with Cons.prems show ?thesis by simp
  next
    case rq: (Cons q qs)
    with Cons.IH [of q] have q: "y \<in> set q \<Longrightarrow> P y = P (hd q)" for y by simp
    from rq Cons.IH have qs: "r' \<in> set qs \<Longrightarrow> y \<in> set r' \<Longrightarrow> P y = P (hd r')" for r' y
      by simp
    from Cons.prems rq q qs show ?thesis
      by (auto split: if_splits)
  qed
qed

lemma runs_maximal: "successively (\<lambda>r r'. P (hd r) \<noteq> P (hd r')) (runs P xs)"
  by (induction xs) (auto split: list.splits simp: successively_Cons)

lemma collapse_runs: "collapse s = spec_collapse s"
proof (induction s rule: collapse.induct)
  case 1
  show ?case by (simp add: spec_collapse_def)
next
  case (2 c)
  show ?case by (simp add: spec_collapse_def)
next
  case (3 c d cs)
  obtain r rs where r: "runs alnum (d # cs) = (d # r) # rs"
    using runs_Cons [of alnum d cs] by blast
  with 3 show ?case
    by (auto simp: spec_collapse_def)
qed

lemma strip_False: "replace_all edge_hyphens [] False s = strip_trailing s"
  by (induction s) (auto simp add: strip_Nil strip_Cons strip_trailing_def)

lemma strip_True: "replace_all edge_hyphens [] True s = strip_trailing (strip_leading s)"
  by (cases s) (auto simp add: strip_Nil strip_Cons strip_False strip_leading_def strip_trailing_def)

lemma slugify_unfold: "slugify s = strip_trailing (strip_leading (collapse (toLowerCase s)))"
  unfolding slugify_def lit_hyphen strip_True
  by (subst collapse_flag) (simp add: collapse_rec)

subsection \<open>The result is a slug, and slugs are fixed points\<close>

lemma collapse_head: "alnum c \<Longrightarrow> collapse (c # cs) = c # collapse cs"
  by (cases cs) simp_all

lemma collapse_units: "list_all slug_unit (collapse s)"
  by (induction s rule: collapse.induct) (simp_all add: slug_unit_def)

lemma no_double_Cons: "c \<noteq> hyphen \<Longrightarrow> no_double_hyphen (c # cs) = no_double_hyphen cs"
  by (cases cs) simp_all

lemma collapse_no_double: "no_double_hyphen (collapse s)"
proof (induction s rule: collapse.induct)
  case (3 c d cs)
  show ?case
  proof (cases "alnum c")
    case True
    then have "c \<noteq> hyphen" using hyphen_not_alnum by auto
    with True 3 show ?thesis by (simp add: no_double_Cons)
  next
    case False
    show ?thesis
    proof (cases "alnum d")
      case True
      then have "d \<noteq> hyphen" using hyphen_not_alnum by auto
      with False True 3 show ?thesis by (simp add: collapse_head)
    next
      case dF: False
      with False 3 show ?thesis by simp
    qed
  qed
qed simp_all

lemma collapse_filter: "filter alnum (collapse s) = filter alnum s"
  by (induction s rule: collapse.induct) (simp_all add: hyphen_not_alnum)

lemma no_double_tl: "no_double_hyphen (c # cs) \<Longrightarrow> no_double_hyphen cs"
  by (cases cs) simp_all

lemma no_double_butlast: "no_double_hyphen s \<Longrightarrow> no_double_hyphen (butlast s)"
  by (induction s rule: no_double_hyphen.induct) (auto split: if_splits)

lemma list_all_butlast: "list_all P s \<Longrightarrow> list_all P (butlast s)"
  by (induction s) auto

lemma no_double_last:
  "no_double_hyphen s \<Longrightarrow> ends_hyphen s \<Longrightarrow> \<not> ends_hyphen (butlast s)"
  by (induction s rule: no_double_hyphen.induct) (auto simp: ends_hyphen_def split: if_splits)

lemma starts_butlast: "\<not> starts_hyphen s \<Longrightarrow> \<not> starts_hyphen (butlast s)"
  by (cases s) (auto simp: starts_hyphen_def)

lemma strip_leading_slug:
  assumes "list_all slug_unit s" "no_double_hyphen s"
  shows "list_all slug_unit (strip_leading s)" "no_double_hyphen (strip_leading s)"
    "\<not> starts_hyphen (strip_leading s)"
  using assms
  by (cases s; cases "tl s"; auto simp: strip_leading_def starts_hyphen_def dest: no_double_tl)+

lemma strip_trailing_slug:
  assumes "list_all slug_unit s" "no_double_hyphen s" "\<not> starts_hyphen s"
  shows "is_slug (strip_trailing s)"
proof (cases "ends_hyphen s")
  case True
  then have "strip_trailing s = butlast s"
    by (simp add: strip_trailing_def ends_hyphen_def)
  with assms True show ?thesis
    by (simp add: is_slug_def list_all_butlast no_double_butlast starts_butlast no_double_last)
next
  case False
  then have "strip_trailing s = s"
    by (auto simp: strip_trailing_def ends_hyphen_def)
  with assms False show ?thesis
    by (simp add: is_slug_def)
qed

lemma slugify_is_slug: "is_slug (slugify s)"
  unfolding slugify_unfold
  by (intro strip_trailing_slug strip_leading_slug collapse_units collapse_no_double)

lemma lower_fix: "slug_unit c \<Longrightarrow> lower_unit c = [c]"
  apply (auto simp: slug_unit_def alnum_def lower_unit_def hyphen_def)
  apply unat_arith+
  done

lemma toLowerCase_fix: "list_all slug_unit s \<Longrightarrow> toLowerCase s = s"
  by (induction s) (simp_all add: toLowerCase_def lower_fix)

lemma collapse_fix: "list_all slug_unit s \<Longrightarrow> no_double_hyphen s \<Longrightarrow> collapse s = s"
  by (induction s rule: collapse.induct) (auto simp: slug_unit_def)

lemma is_slug_fixed: "is_slug s \<Longrightarrow> slugify s = s"
  unfolding slugify_unfold is_slug_def
  by (cases s) (auto simp: toLowerCase_fix collapse_fix strip_leading_def strip_trailing_def
      starts_hyphen_def ends_hyphen_def)

lemma strip_leading_filter: "filter alnum (strip_leading s) = filter alnum s"
  by (cases s) (auto simp: strip_leading_def hyphen_not_alnum)

lemma strip_trailing_filter: "filter alnum (strip_trailing s) = filter alnum s"
proof (cases "s \<noteq> [] \<and> last s = hyphen")
  case True
  then have "s = butlast s @ [hyphen]" by (metis append_butlast_last_id)
  then have "filter alnum s = filter alnum (butlast s @ [hyphen])" by simp
  with True show ?thesis by (simp add: strip_trailing_def hyphen_not_alnum)
next
  case False
  then show ?thesis by (auto simp: strip_trailing_def)
qed

lemma slugify_filter: "filter alnum (slugify s) = filter alnum (toLowerCase s)"
  by (simp add: slugify_unfold strip_trailing_filter strip_leading_filter collapse_filter)

lemma slug_dfa_tail:
  "list_all slug_unit s \<Longrightarrow> no_double_hyphen s \<Longrightarrow> \<not> ends_hyphen s \<Longrightarrow>
   (owed \<longrightarrow> s \<noteq> [] \<and> \<not> starts_hyphen s) \<Longrightarrow> slug_dfa owed s"
proof (induction s arbitrary: owed)
  case Nil
  then show ?case by simp
next
  case (Cons c cs)
  show ?case
  proof (cases "alnum c")
    case True
    have "slug_dfa False cs"
      using Cons.prems by (intro Cons.IH) (auto simp: ends_hyphen_def dest: no_double_tl)
    with True show ?thesis by simp
  next
    case False
    with Cons.prems have c: "c = hyphen" "\<not> owed" by (auto simp: slug_unit_def starts_hyphen_def)
    have "slug_dfa True cs"
      using Cons.prems c
      by (intro Cons.IH) (cases cs; auto simp: ends_hyphen_def starts_hyphen_def dest: no_double_tl)+
    with False c show ?thesis by simp
  qed
qed

lemma is_slug_matches: "is_slug s \<Longrightarrow> s \<noteq> [] \<Longrightarrow> matches_slug s"
  unfolding matches_slug_def is_slug_def by (intro slug_dfa_tail) auto

lemma list_ex_lower: "list_ex lowercases_into_alnum s = (filter alnum (toLowerCase s) \<noteq> [])"
  by (induction s) (auto simp: lowercases_into_alnum_def toLowerCase_def list_ex_iff filter_empty_conv)

lemma starts_prefix: "starts_hyphen s = prefix [hyphen] s"
  by (cases s) (auto simp add: starts_hyphen_def)

lemma ends_suffix: "ends_hyphen s = suffix [hyphen] s"
  by (cases s rule: rev_cases) (auto simp add: ends_hyphen_def)

lemma no_double_sublist: "no_double_hyphen s \<Longrightarrow> \<not> sublist [hyphen, hyphen] s"
  by (induction s rule: no_double_hyphen.induct) (auto simp: sublist_Cons_right)

subsection \<open>The pattern, as it is written\<close>

lemma dfa_alnum_run:
  "list_all alnum w \<Longrightarrow> slug_dfa b (w @ rest) = (if w = [] then slug_dfa b rest else slug_dfa False rest)"
  by (induction w arbitrary: b) auto

lemma dfa_groups:
  "\<forall>v\<in>set ws. v \<noteq> [] \<and> list_all alnum v \<Longrightarrow> slug_dfa False (concat (map ((#) hyphen) ws))"
proof (induction ws)
  case Nil
  show ?case by simp
next
  case (Cons v ws)
  then have "slug_dfa True (v @ concat (map ((#) hyphen) ws))"
    by (simp add: dfa_alnum_run)
  then show ?case by (simp add: hyphen_not_alnum)
qed

lemma dfa_split:
  "slug_dfa owed s \<Longrightarrow>
   \<exists>w ws. s = w @ concat (map ((#) hyphen) ws) \<and> list_all alnum w \<and> (owed \<longrightarrow> w \<noteq> []) \<and>
     (\<forall>v\<in>set ws. v \<noteq> [] \<and> list_all alnum v)"
proof (induction s arbitrary: owed)
  case Nil
  then show ?case by auto
next
  case (Cons c cs)
  show ?case
  proof (cases "alnum c")
    case True
    with Cons.prems have "slug_dfa False cs" by simp
    from Cons.IH [OF this] obtain w ws where
      "cs = w @ concat (map ((#) hyphen) ws)" "list_all alnum w"
      "\<forall>v\<in>set ws. v \<noteq> [] \<and> list_all alnum v" by blast
    with True have "c # cs = (c # w) @ concat (map ((#) hyphen) ws) \<and> list_all alnum (c # w) \<and>
      (owed \<longrightarrow> c # w \<noteq> []) \<and> (\<forall>v\<in>set ws. v \<noteq> [] \<and> list_all alnum v)" by simp
    then show ?thesis by blast
  next
    case False
    with Cons.prems have c: "c = hyphen" "\<not> owed" and "slug_dfa True cs"
      by (auto split: if_splits)
    from Cons.IH [OF this(3)] obtain w ws where
      "cs = w @ concat (map ((#) hyphen) ws)" "list_all alnum w" "w \<noteq> []"
      "\<forall>v\<in>set ws. v \<noteq> [] \<and> list_all alnum v" by blast
    with c have "c # cs = [] @ concat (map ((#) hyphen) (w # ws)) \<and> list_all alnum [] \<and>
      (owed \<longrightarrow> [] \<noteq> ([] :: jsstring)) \<and> (\<forall>v\<in>set (w # ws). v \<noteq> [] \<and> list_all alnum v)" by simp
    then show ?thesis by blast
  qed
qed

lemma matches_slug_iff:
  "matches_slug s \<longleftrightarrow>
     (\<exists>w ws. s = w @ concat (map ((#) hyphen) ws) \<and> w \<noteq> [] \<and> list_all alnum w \<and>
        (\<forall>v\<in>set ws. v \<noteq> [] \<and> list_all alnum v))"
proof
  assume "matches_slug s"
  then show "\<exists>w ws. s = w @ concat (map ((#) hyphen) ws) \<and> w \<noteq> [] \<and> list_all alnum w \<and>
        (\<forall>v\<in>set ws. v \<noteq> [] \<and> list_all alnum v)"
    unfolding matches_slug_def using dfa_split [of True s] by blast
next
  assume "\<exists>w ws. s = w @ concat (map ((#) hyphen) ws) \<and> w \<noteq> [] \<and> list_all alnum w \<and>
        (\<forall>v\<in>set ws. v \<noteq> [] \<and> list_all alnum v)"
  then obtain w ws where "s = w @ concat (map ((#) hyphen) ws)" "w \<noteq> []" "list_all alnum w"
    "\<forall>v\<in>set ws. v \<noteq> [] \<and> list_all alnum v" by blast
  then show "matches_slug s"
    by (simp add: matches_slug_def dfa_alnum_run dfa_groups)
qed

section \<open>The claims about \<open>slugify\<close>\<close>

text \<open>
  C1. For every input string, \<open>slugify\<close> returns what the reference algorithm of the
  specification returns: lower-case the string, replace every maximal run of code units
  outside \<open>[a-z0-9]\<close> with one hyphen, strip a leading hyphen if there is one, strip a
  trailing hyphen if there is one.
\<close>

theorem slugify_refines_spec: "slugify s = spec_slugify s"
  by (simp add: slugify_unfold spec_slugify_def collapse_runs)

text \<open>
  C2. For every non-empty string that contains a character whose lower-case form has a
  code unit in \<open>[a-z0-9]\<close>, the result matches \<open>^[a-z0-9]+(-[a-z0-9]+)*$\<close>; and the
  result is empty only when the input contains no such character.
\<close>

theorem slugify_matches_pattern:
  "(s \<noteq> [] \<and> list_ex lowercases_into_alnum s \<longrightarrow> matches_slug (slugify s)) \<and>
   (slugify s = [] \<longrightarrow> \<not> list_ex lowercases_into_alnum s)"
proof -
  have ne: "slugify s \<noteq> []" if "list_ex lowercases_into_alnum s"
  proof
    assume "slugify s = []"
    then have "filter alnum (slugify s) = []" by simp
    with that show False by (simp add: slugify_filter list_ex_lower)
  qed
  then have "matches_slug (slugify s)" if "list_ex lowercases_into_alnum s"
    using that by (intro is_slug_matches slugify_is_slug)
  with ne show ?thesis by blast
qed

theorem slugify_matches_pattern_witness:
  "(lit ''C99 VLAs'' \<noteq> [] \<and> list_ex lowercases_into_alnum (lit ''C99 VLAs'') \<and>
      matches_slug (slugify (lit ''C99 VLAs''))) \<and>
   (slugify (lit '' ?!'') = [] \<and> \<not> list_ex lowercases_into_alnum (lit '' ?!''))"
proof -
  have a: "lit ''C99 VLAs'' \<noteq> [] \<and> list_ex lowercases_into_alnum (lit ''C99 VLAs'')"
    by code_simp
  have b: "slugify (lit '' ?!'') = []"
    by code_simp
  from a b slugify_matches_pattern [of "lit ''C99 VLAs''"] slugify_matches_pattern [of "lit '' ?!''"]
  show ?thesis by blast
qed

text \<open>
  C3. \<open>slugify\<close> is idempotent: applied to its own result it returns that result.
\<close>

theorem slugify_idempotent: "slugify (slugify s) = slugify s"
  by (rule is_slug_fixed) (rule slugify_is_slug)

text \<open>
  C4. The three examples of the specification: \<open>"2.2 Initializer Lists"\<close> gives
  \<open>"2-2-initializer-lists"\<close>, \<open>"Arrays and Pointers"\<close> gives
  \<open>"arrays-and-pointers"\<close>, and \<open>"  Leading/Trailing!!"\<close> gives
  \<open>"leading-trailing"\<close>.
\<close>

theorem slugify_examples:
  "slugify (lit ''2.2 Initializer Lists'') = lit ''2-2-initializer-lists'' \<and>
   slugify (lit ''Arrays and Pointers'') = lit ''arrays-and-pointers'' \<and>
   slugify (lit ''  Leading/Trailing!!'') = lit ''leading-trailing''"
  by code_simp

text \<open>
  C9. \<open>slugify\<close> is defined on every string, the empty one included, for which it
  returns the empty string. Its result holds only code units of \<open>[a-z0-9]\<close> and
  hyphens, neither begins nor ends with a hyphen, and has no two hyphens in a row.
\<close>

theorem slugify_shape:
  "set (slugify s) \<subseteq> {c. alnum c} \<union> {hyphen} \<and>
   \<not> prefix [hyphen] (slugify s) \<and>
   \<not> suffix [hyphen] (slugify s) \<and>
   \<not> sublist [hyphen, hyphen] (slugify s) \<and>
   slugify [] = []"
proof -
  have s: "is_slug (slugify s)" by (rule slugify_is_slug)
  have "is_slug []" by (simp add: is_slug_def starts_hyphen_def ends_hyphen_def)
  then have e: "slugify [] = []" by (rule is_slug_fixed)
  from s have "list_all slug_unit (slugify s)" by (simp add: is_slug_def)
  then have u: "set (slugify s) \<subseteq> {c. alnum c} \<union> {hyphen}"
    by (auto simp: list_all_iff slug_unit_def)
  from s have "\<not> sublist [hyphen, hyphen] (slugify s)"
    by (simp add: is_slug_def no_double_sublist)
  with s u e show ?thesis
    by (simp add: is_slug_def starts_prefix ends_suffix)
qed

section \<open>Properties of the renderer\<close>

subsection \<open>Selecting elements\<close>

lemma select_Element:
  "select P (Element t k as cs) =
     (if P (Element t k as cs) then [Element t k as cs] else []) @ concat (map (select P) cs)"
  by (simp add: select_def [abs_def] filter_concat comp_def)

lemma select_Text: "select P (Text s) = []"
  by (simp add: select_def)

lemma concat_map_single: "(\<And>x. x \<in> set xs \<Longrightarrow> h x = [g x]) \<Longrightarrow> concat (map h xs) = map g xs"
  by (induction xs) simp_all

lemma concat_map_Nil: "concat (map (\<lambda>x. []) xs) = []"
  by (induction xs) simp_all

lemma has_class_Element:
  "has_class c (Element t k as cs) = (map_of as ''className'' = Some (Style c))"
  by (simp add: has_class_def)

lemmas select_simps = select_Element select_Text concat_map_Nil comp_def has_class_Element

subsection \<open>A code sample\<close>

lemma figures_sample: "figures (render_sample s c) = [render_sample s c]"
  by (simp add: figures_def render_sample_def select_simps)

lemma sample_view_sample:
  "sample_view (render_sample s c) = ([[Text (caption c)]], [[Text (content c)]])"
  by (simp add: sample_view_def render_sample_def select_simps)

lemma sample_no_sections:
  "topic_sections (render_sample s c) = []"
  "subtopic_sections (render_sample s c) = []"
  "note_lists (render_sample s c) = []"
  "code_groups (render_sample s c) = []"
  "select (has_tag ''nav'') (render_sample s c) = []"
  by (simp_all add: topic_sections_def subtopic_sections_def note_lists_def code_groups_def
      render_sample_def select_simps)

subsection \<open>A subtopic\<close>

lemma concat_figures_samples:
  "concat (map (\<lambda>c. select (has_tag ''figure'') (render_sample s c)) cs) = map (render_sample s) cs"
  by (rule concat_map_single) (simp add: figures_sample [unfolded figures_def])

lemma figures_subtopic: "figures (render_subtopic s) = map (render_sample s) (samples_of s)"
  by (cases "notes s"; cases "code s")
    (simp_all add: figures_def render_subtopic_def samples_of_def select_simps concat_figures_samples)

lemma note_lists_subtopic:
  "note_lists (render_subtopic s) =
     (case notes s of
        None \<Rightarrow> []
      | Some ns \<Rightarrow>
          [Element ''ul'' None [(''className'', Style ''notes'')]
             (map (\<lambda>note. Element ''li'' (Some note) [] [Text note]) ns)])"
  by (cases "notes s"; cases "code s")
    (simp_all add: note_lists_def render_subtopic_def select_simps
      sample_no_sections(3) [unfolded note_lists_def])

lemma note_items_subtopic:
  "note_items (render_subtopic s) = map (\<lambda>note. Element ''li'' (Some note) [] [Text note]) (notes_of s)"
  by (cases "notes s")
    (simp_all add: note_items_def note_lists_subtopic notes_of_def select_simps
      concat_map_single [where g = "\<lambda>note. Element ''li'' (Some note) [] [Text note]"])

lemma code_groups_subtopic:
  "code_groups (render_subtopic s) =
     (case code s of
        None \<Rightarrow> []
      | Some cs \<Rightarrow>
          [Element ''div'' None [(''className'', Style ''codeGroup'')] (map (render_sample s) cs)])"
  by (cases "notes s"; cases "code s")
    (simp_all add: code_groups_def render_subtopic_def select_simps
      sample_no_sections(4) [unfolded code_groups_def])

lemma subtopic_sections_subtopic: "subtopic_sections (render_subtopic s) = [render_subtopic s]"
  by (cases "notes s"; cases "code s")
    (simp_all add: subtopic_sections_def render_subtopic_def select_simps
      sample_no_sections(2) [unfolded subtopic_sections_def])

lemma subtopic_no_sections:
  "topic_sections (render_subtopic s) = []"
  "select (has_tag ''nav'') (render_subtopic s) = []"
  by (cases "notes s"; cases "code s";
      simp add: topic_sections_def render_subtopic_def select_simps
      sample_no_sections(1,5) [unfolded topic_sections_def])+

lemma subtopic_anchor:
  "attr ''id'' (render_subtopic s) = Some (Str (slugify (Subtopic.title s)))"
  "heading (render_subtopic s) = Some (''h3'', [Text (Subtopic.title s)])"
  by (simp_all add: render_subtopic_def)

subsection \<open>A topic\<close>

lemma concat_sections_subtopics:
  "concat (map (\<lambda>s. select (\<lambda>m. has_tag ''section'' m \<and> has_class ''subtopic'' m) (render_subtopic s)) ss) =
     map render_subtopic ss"
  by (rule concat_map_single) (simp add: subtopic_sections_subtopic [unfolded subtopic_sections_def])

lemma subtopic_sections_topic:
  "subtopic_sections (render_topic t) = map render_subtopic (subtopics t)"
  by (simp add: subtopic_sections_def render_topic_def select_simps concat_sections_subtopics)

lemma topic_sections_topic: "topic_sections (render_topic t) = [render_topic t]"
  by (simp add: topic_sections_def render_topic_def select_simps
      subtopic_no_sections(1) [unfolded topic_sections_def])

lemma topic_no_nav: "select (has_tag ''nav'') (render_topic t) = []"
  by (simp add: render_topic_def select_simps subtopic_no_sections(2))

lemma topic_anchor:
  "attr ''id'' (render_topic t) = Some (Str (slugify (Topic.title t)))"
  "heading (render_topic t) = Some (''h2'', [Text (Topic.title t)])"
  by (simp_all add: render_topic_def)

lemma figures_topic:
  "figures (render_topic t) = concat (map (\<lambda>s. map (render_sample s) (samples_of s)) (subtopics t))"
  by (simp add: figures_def render_topic_def select_simps figures_subtopic [unfolded figures_def])

subsection \<open>A navigation entry\<close>

lemma nav_entry_items: "select (has_tag ''li'') (render_nav_entry t) = [render_nav_entry t]"
  by (simp add: render_nav_entry_def select_simps)

lemma nav_entry_none:
  "topic_sections (render_nav_entry t) = []"
  "subtopic_sections (render_nav_entry t) = []"
  "figures (render_nav_entry t) = []"
  by (simp_all add: topic_sections_def subtopic_sections_def figures_def render_nav_entry_def
      select_simps)

lemma nav_link_entry:
  "nav_link (render_nav_entry t) = Some (lit ''#'' @ slugify (Topic.title t), Topic.title t)"
  by (simp add: render_nav_entry_def)

subsection \<open>The page\<close>

lemma nav_items_render: "nav_items (render ts) = map render_nav_entry ts"
proof -
  have "concat (map (\<lambda>t. select (has_tag ''li'') (render_nav_entry t)) ts) = map render_nav_entry ts"
    by (rule concat_map_single) (simp add: nav_entry_items)
  moreover have "concat (map (\<lambda>t. select (has_tag ''nav'') (render_nav_entry t)) ts) = []"
    by (simp add: render_nav_entry_def select_simps)
  ultimately show ?thesis
    by (simp add: nav_items_def render_def select_simps topic_no_nav)
qed

lemma topic_sections_render: "topic_sections (render ts) = map render_topic ts"
proof -
  have "concat (map (\<lambda>t. select (has_tag ''article'') (render_topic t)) ts) = map render_topic ts"
    by (rule concat_map_single) (simp add: topic_sections_topic [unfolded topic_sections_def])
  then show ?thesis
    by (simp add: topic_sections_def render_def select_simps
        nav_entry_none(1) [unfolded topic_sections_def])
qed

lemma subtopic_sections_render:
  "subtopic_sections (render ts) = map render_subtopic (all_subtopics ts)"
  by (simp add: subtopic_sections_def render_def select_simps all_subtopics_def map_concat
      nav_entry_none(2) [unfolded subtopic_sections_def]
      subtopic_sections_topic [unfolded subtopic_sections_def])

lemma concat_map_nested:
  "concat (map (\<lambda>x. concat (map f (g x))) xs) = concat (map f (concat (map g xs)))"
  by (induction xs) simp_all

lemma figures_render:
  "figures (render ts) =
     concat (map (\<lambda>s. map (render_sample s) (samples_of s)) (all_subtopics ts))"
  by (simp add: figures_def render_def select_simps all_subtopics_def concat_map_nested
      nav_entry_none(3) [unfolded figures_def] figures_topic [unfolded figures_def])

lemma navs_render: "length (select (has_tag ''nav'') (render ts)) = 1"
proof -
  have "concat (map (\<lambda>t. select (has_tag ''nav'') (render_nav_entry t)) ts) = []"
    by (simp add: render_nav_entry_def select_simps)
  then show ?thesis
    by (simp add: render_def select_simps topic_no_nav)
qed

section \<open>The claims about the renderer\<close>

text \<open>
  C5. For a content model \<open>ts\<close> with N topics, the i-th with M_i subtopics, the page
  has one navigation list; its entries are N links, in the order of the content model,
  each with the target \<open>#\<close> followed by the slug of the topic's title and with the
  title as its label. The page has exactly N topic sections and as many subtopic
  sections as the M_i add up to; each has the slug of its title as its \<open>id\<close> and the
  title as its heading. Read back section by section, the page gives the topics in their
  order, within each topic its subtopics in their order, and within each subtopic its
  notes and its code samples in their order.
\<close>

theorem render_structure:
  "length (select (has_tag ''nav'') (render ts)) = 1 \<and>
   map nav_link (nav_items (render ts)) =
     map (\<lambda>t. Some (lit ''#'' @ slugify (Topic.title t), Topic.title t)) ts \<and>
   length (nav_items (render ts)) = length ts \<and>
   length (topic_sections (render ts)) = length ts \<and>
   length (subtopic_sections (render ts)) = sum_list (map (\<lambda>t. length (subtopics t)) ts) \<and>
   map (\<lambda>a. (attr ''id'' a, heading a)) (topic_sections (render ts)) =
     map (\<lambda>t. (Some (Str (slugify (Topic.title t))), Some (''h2'', [Text (Topic.title t)]))) ts \<and>
   map (\<lambda>a. (attr ''id'' a, heading a)) (subtopic_sections (render ts)) =
     map (\<lambda>s. (Some (Str (slugify (Subtopic.title s))), Some (''h3'', [Text (Subtopic.title s)])))
       (all_subtopics ts) \<and>
   map (\<lambda>a. map (\<lambda>b. (attr ''id'' b, map children (note_items b), map sample_view (figures b)))
              (subtopic_sections a))
     (topic_sections (render ts)) =
     map (\<lambda>t. map (\<lambda>s. (Some (Str (slugify (Subtopic.title s))),
                         map (\<lambda>n. [Text n]) (notes_of s),
                         map (\<lambda>c. ([[Text (caption c)]], [[Text (content c)]])) (samples_of s)))
              (subtopics t))
       ts"
proof -
  have len: "length (all_subtopics ts) = sum_list (map (\<lambda>t. length (subtopics t)) ts)"
    by (simp add: all_subtopics_def length_concat comp_def)
  show ?thesis
    by (simp add: navs_render nav_items_render topic_sections_render subtopic_sections_render
        subtopic_sections_topic note_items_subtopic figures_subtopic
        nav_link_entry topic_anchor subtopic_anchor sample_view_sample len comp_def)
qed

text \<open>
  C6, as the specification states it, fails: a subtopic whose \<open>notes\<close> field is the
  empty list has no notes, and its notes list is rendered all the same, as an empty
  \<open>ul\<close>; likewise the code group of a subtopic whose \<open>code\<close> field is the empty
  list.
\<close>

theorem omitted_when_none_counterexample:
  "notes_of \<lparr>Subtopic.title = lit ''T'', summary = lit ''S'', notes = Some [], code = Some []\<rparr> = [] \<and>
   note_lists (render_subtopic
     \<lparr>Subtopic.title = lit ''T'', summary = lit ''S'', notes = Some [], code = Some []\<rparr>) \<noteq> [] \<and>
   samples_of \<lparr>Subtopic.title = lit ''T'', summary = lit ''S'', notes = Some [], code = Some []\<rparr> = [] \<and>
   code_groups (render_subtopic
     \<lparr>Subtopic.title = lit ''T'', summary = lit ''S'', notes = Some [], code = Some []\<rparr>) \<noteq> []"
  by (simp add: note_lists_subtopic code_groups_subtopic notes_of_def samples_of_def)

text \<open>
  C6, amended. The subtopic sections of the page are the renderings of its subtopics.
  For every subtopic, the notes list is omitted entirely when the subtopic has no
  \<open>notes\<close> field, and the code group is omitted entirely when it has no \<open>code\<close>
  field; a subtopic with no \<open>notes\<close> field renders no note list item, and one with an
  empty \<open>code\<close> list renders no code figure. A field that is present and is the
  empty list still renders its element: the notes list with no item, the code group with
  no figure.
\<close>

theorem omitted_when_absent:
  "subtopic_sections (render ts) = map render_subtopic (all_subtopics ts) \<and>
   (notes s = None \<longrightarrow> note_lists (render_subtopic s) = []) \<and>
   (code s = None \<longrightarrow> code_groups (render_subtopic s) = []) \<and>
   (notes s = None \<longrightarrow> note_items (render_subtopic s) = [] \<and>
      select (has_tag ''li'') (render_subtopic s) = []) \<and>
   (code s = Some [] \<longrightarrow> figures (render_subtopic s) = []) \<and>
   (notes s = Some [] \<longrightarrow>
      note_lists (render_subtopic s) = [Element ''ul'' None [(''className'', Style ''notes'')] []] \<and>
      note_items (render_subtopic s) = []) \<and>
   (code s = Some [] \<longrightarrow>
      code_groups (render_subtopic s) =
        [Element ''div'' None [(''className'', Style ''codeGroup'')] []])"
proof -
  have "select (has_tag ''li'') (render_subtopic s) = []" if "notes s = None"
    using that
    by (cases "code s") (simp_all add: render_subtopic_def render_sample_def select_simps)
  then show ?thesis
    by (simp add: subtopic_sections_render note_lists_subtopic note_items_subtopic
        code_groups_subtopic figures_subtopic notes_of_def samples_of_def)
qed

theorem omitted_when_absent_witness:
  "(notes \<lparr>Subtopic.title = lit ''T'', summary = lit ''S'', notes = None, code = None\<rparr> = None \<and>
    code \<lparr>Subtopic.title = lit ''T'', summary = lit ''S'', notes = None, code = None\<rparr> = None \<and>
    note_lists (render_subtopic
      \<lparr>Subtopic.title = lit ''T'', summary = lit ''S'', notes = None, code = None\<rparr>) = [] \<and>
    code_groups (render_subtopic
      \<lparr>Subtopic.title = lit ''T'', summary = lit ''S'', notes = None, code = None\<rparr>) = [] \<and>
    note_items (render_subtopic
      \<lparr>Subtopic.title = lit ''T'', summary = lit ''S'', notes = None, code = None\<rparr>) = []) \<and>
   (code \<lparr>Subtopic.title = lit ''T'', summary = lit ''S'', notes = None, code = Some []\<rparr> = Some [] \<and>
    figures (render_subtopic
      \<lparr>Subtopic.title = lit ''T'', summary = lit ''S'', notes = None, code = Some []\<rparr>) = []) \<and>
   (notes \<lparr>Subtopic.title = lit ''T'', summary = lit ''S'', notes = Some [], code = Some []\<rparr> = Some [] \<and>
    code \<lparr>Subtopic.title = lit ''T'', summary = lit ''S'', notes = Some [], code = Some []\<rparr> = Some [] \<and>
    note_lists (render_subtopic
      \<lparr>Subtopic.title = lit ''T'', summary = lit ''S'', notes = Some [], code = Some []\<rparr>) =
      [Element ''ul'' None [(''className'', Style ''notes'')] []] \<and>
    note_items (render_subtopic
      \<lparr>Subtopic.title = lit ''T'', summary = lit ''S'', notes = Some [], code = Some []\<rparr>) = [] \<and>
    code_groups (render_subtopic
      \<lparr>Subtopic.title = lit ''T'', summary = lit ''S'', notes = Some [], code = Some []\<rparr>) =
      [Element ''div'' None [(''className'', Style ''codeGroup'')] []] \<and>
    figures (render_subtopic
      \<lparr>Subtopic.title = lit ''T'', summary = lit ''S'', notes = Some [], code = Some []\<rparr>) = [])"
  using omitted_when_absent
      [of "[]" "\<lparr>Subtopic.title = lit ''T'', summary = lit ''S'', notes = None, code = None\<rparr>"]
    omitted_when_absent
      [of "[]" "\<lparr>Subtopic.title = lit ''T'', summary = lit ''S'', notes = None, code = Some []\<rparr>"]
    omitted_when_absent
      [of "[]" "\<lparr>Subtopic.title = lit ''T'', summary = lit ''S'', notes = Some [], code = Some []\<rparr>"]
  by simp

text \<open>
  C8. The figures of the page are, in order, the code samples of the content model; the
  caption element of each holds one text node, the sample's caption, and its
  \<open>pre\<close> holds one \<open>code\<close> element with one text node, the sample's content, both
  strings as they are in the content model. So it is for the page \<open>Home\<close> of the
  authored content.
\<close>

theorem samples_verbatim:
  "map sample_view (figures (render ts)) =
     map (\<lambda>c. ([[Text (caption c)]], [[Text (content c)]])) (all_samples ts) \<and>
   map sample_view (figures Home) =
     map (\<lambda>c. ([[Text (caption c)]], [[Text (content c)]])) (all_samples topics)"
  by (simp add: Home_def figures_render all_samples_def map_concat comp_def sample_view_sample)



section \<open>The authored content\<close>

lemma unat_of_char: "unat (of_char c :: code_unit) = of_char c"
proof -
  have "(of_char c :: nat) mod 256 = of_char c" by (rule of_char_mod_256)
  then have "(of_char c :: nat) < 256"
    by (metis mod_less_divisor zero_less_numeral)
  then have "(of_char c :: nat) < 2 ^ 16" by (rule less_trans) simp
  then have "unat (of_nat (of_char c) :: code_unit) = of_char c"
    by (simp add: unat_of_nat take_bit_nat_eq_self)
  then show ?thesis by (simp only: of_nat_of_char)
qed

lemma of_char_unit_eq_iff: "(of_char c :: code_unit) = of_char d \<longleftrightarrow> c = d"
proof
  assume "(of_char c :: code_unit) = of_char d"
  then have "unat (of_char c :: code_unit) = unat (of_char d :: code_unit)" by simp
  then show "c = d" by (simp add: unat_of_char)
qed simp

lemma lit_eq_iff: "lit s = lit t \<longleftrightarrow> s = t"
  unfolding lit_def by (rule inj_map_eq_map) (simp add: inj_on_def of_char_unit_eq_iff)

lemma distinct_lit: "distinct (map lit xs) = distinct xs"
  by (simp add: distinct_map inj_on_def lit_eq_iff)

lemma lit_Nil: "lit [] = []"
  by (simp add: lit_def)

lemma lit_Cons: "lit (c # cs) = of_char c # lit cs"
  by (simp add: lit_def)

lemmas slug_eval = slugify_unfold toLowerCase_def lower_unit_def alnum_def hyphen_def
  lit_Cons lit_Nil strip_leading_def strip_trailing_def

text \<open>The titles of the authored topics, each with the titles of its subtopics.\<close>

lemma authored_outline:
  "map (\<lambda>t. (Topic.title t, map Subtopic.title (subtopics t))) topics =
     [(lit ''1. Array Fundamentals'',
       [lit ''1.1 Definition and Characteristics'',
        lit ''1.2 Compile-Time vs. Run-Time Size'']),
      (lit ''2. Declaring and Initializing Arrays'',
       [lit ''2.1 Declaration Syntax'',
        lit ''2.2 Initializer Lists'']),
      (lit ''3. Memory Layout and Indexing'',
       [lit ''3.1 Using sizeof Safely'',
        lit ''3.2 Bounds Awareness'']),
      (lit ''4. Core Operations'',
       [lit ''4.1 Traversal and Aggregation'',
        lit ''4.2 Searching'',
        lit ''4.3 Insertion and Deletion'']),
      (lit ''5. Multidimensional Arrays'',
       [lit ''5.1 Declaration and Initialization'',
        lit ''5.2 Passing Multidimensional Arrays'']),
      (lit ''6. Arrays and Pointers'',
       [lit ''6.1 Decay and Differences'',
        lit ''6.2 Pointer Arithmetic'']),
      (lit ''7. Strings as Character Arrays'',
       [lit ''7.1 Initialization and Literals'',
        lit ''7.2 Iterating Over Strings'']),
      (lit ''8. Dynamic Arrays'',
       [lit ''8.1 malloc, calloc, and realloc'',
        lit ''8.2 Flexible Array Members'']),
      (lit ''9. Arrays and Functions'',
       [lit ''9.1 Function Parameters'',
        lit ''9.2 Returning Arrays'']),
      (lit ''10. Best Practices and Common Pitfalls'',
       [lit ''10.1 Best Practices Checklist'',
        lit ''10.2 Common Mistakes to Avoid''])]"
  by (simp add: topics_def)

lemma all_titles_outline:
  "all_titles ts =
     concat (map (\<lambda>p. fst p # snd p) (map (\<lambda>t. (Topic.title t, map Subtopic.title (subtopics t))) ts))"
  by (simp add: all_titles_def comp_def)

lemma all_subtopics_outline:
  "length (all_subtopics ts) =
     sum_list (map (\<lambda>p. length (snd p)) (map (\<lambda>t. (Topic.title t, map Subtopic.title (subtopics t))) ts))"
  by (simp add: all_subtopics_def length_concat comp_def)

text \<open>The slugs, topic by topic.\<close>

lemma slugs_1:
  "map slugify
     [lit ''1. Array Fundamentals'',
      lit ''1.1 Definition and Characteristics'',
      lit ''1.2 Compile-Time vs. Run-Time Size''] =
     [lit ''1-array-fundamentals'',
      lit ''1-1-definition-and-characteristics'',
      lit ''1-2-compile-time-vs-run-time-size'']"
  by (simp add: slug_eval)

lemma slugs_2:
  "map slugify
     [lit ''2. Declaring and Initializing Arrays'',
      lit ''2.1 Declaration Syntax'',
      lit ''2.2 Initializer Lists''] =
     [lit ''2-declaring-and-initializing-arrays'',
      lit ''2-1-declaration-syntax'',
      lit ''2-2-initializer-lists'']"
  by (simp add: slug_eval)

lemma slugs_3:
  "map slugify
     [lit ''3. Memory Layout and Indexing'',
      lit ''3.1 Using sizeof Safely'',
      lit ''3.2 Bounds Awareness''] =
     [lit ''3-memory-layout-and-indexing'',
      lit ''3-1-using-sizeof-safely'',
      lit ''3-2-bounds-awareness'']"
  by (simp add: slug_eval)

lemma slugs_4:
  "map slugify
     [lit ''4. Core Operations'',
      lit ''4.1 Traversal and Aggregation'',
      lit ''4.2 Searching'',
      lit ''4.3 Insertion and Deletion''] =
     [lit ''4-core-operations'',
      lit ''4-1-traversal-and-aggregation'',
      lit ''4-2-searching'',
      lit ''4-3-insertion-and-deletion'']"
  by (simp add: slug_eval)

lemma slugs_5:
  "map slugify
     [lit ''5. Multidimensional Arrays'',
      lit ''5.1 Declaration and Initialization'',
      lit ''5.2 Passing Multidimensional Arrays''] =
     [lit ''5-multidimensional-arrays'',
      lit ''5-1-declaration-and-initialization'',
      lit ''5-2-passing-multidimensional-arrays'']"
  by (simp add: slug_eval)

lemma slugs_6:
  "map slugify
     [lit ''6. Arrays and Pointers'',
      lit ''6.1 Decay and Differences'',
      lit ''6.2 Pointer Arithmetic''] =
     [lit ''6-arrays-and-pointers'',
      lit ''6-1-decay-and-differences'',
      lit ''6-2-pointer-arithmetic'']"
  by (simp add: slug_eval)

lemma slugs_7:
  "map slugify
     [lit ''7. Strings as Character Arrays'',
      lit ''7.1 Initialization and Literals'',
      lit ''7.2 Iterating Over Strings''] =
     [lit ''7-strings-as-character-arrays'',
      lit ''7-1-initialization-and-literals'',
      lit ''7-2-iterating-over-strings'']"
  by (simp add: slug_eval)

lemma slugs_8:
  "map slugify
     [lit ''8. Dynamic Arrays'',
      lit ''8.1 malloc, calloc, and realloc'',
      lit ''8.2 Flexible Array Members''] =
     [lit ''8-dynamic-arrays'',
      lit ''8-1-malloc-calloc-and-realloc'',
      lit ''8-2-flexible-array-members'']"
  by (simp add: slug_eval)

lemma slugs_9:
  "map slugify
     [lit ''9. Arrays and Functions'',
      lit ''9.1 Function Parameters'',
      lit ''9.2 Returning Arrays''] =
     [lit ''9-arrays-and-functions'',
      lit ''9-1-function-parameters'',
      lit ''9-2-returning-arrays'']"
  by (simp add: slug_eval)

lemma slugs_10:
  "map slugify
     [lit ''10. Best Practices and Common Pitfalls'',
      lit ''10.1 Best Practices Checklist'',
      lit ''10.2 Common Mistakes to Avoid''] =
     [lit ''10-best-practices-and-common-pitfalls'',
      lit ''10-1-best-practices-checklist'',
      lit ''10-2-common-mistakes-to-avoid'']"
  by (simp add: slug_eval)

lemma slugs_distinct:
  "distinct (map lit
     [''1-array-fundamentals'',
      ''1-1-definition-and-characteristics'',
      ''1-2-compile-time-vs-run-time-size'',
      ''2-declaring-and-initializing-arrays'',
      ''2-1-declaration-syntax'',
      ''2-2-initializer-lists'',
      ''3-memory-layout-and-indexing'',
      ''3-1-using-sizeof-safely'',
      ''3-2-bounds-awareness'',
      ''4-core-operations'',
      ''4-1-traversal-and-aggregation'',
      ''4-2-searching'',
      ''4-3-insertion-and-deletion'',
      ''5-multidimensional-arrays'',
      ''5-1-declaration-and-initialization'',
      ''5-2-passing-multidimensional-arrays'',
      ''6-arrays-and-pointers'',
      ''6-1-decay-and-differences'',
      ''6-2-pointer-arithmetic'',
      ''7-strings-as-character-arrays'',
      ''7-1-initialization-and-literals'',
      ''7-2-iterating-over-strings'',
      ''8-dynamic-arrays'',
      ''8-1-malloc-calloc-and-realloc'',
      ''8-2-flexible-array-members'',
      ''9-arrays-and-functions'',
      ''9-1-function-parameters'',
      ''9-2-returning-arrays'',
      ''10-best-practices-and-common-pitfalls'',
      ''10-1-best-practices-checklist'',
      ''10-2-common-mistakes-to-avoid''])"
  unfolding distinct_lit by simp

text \<open>
  C7. The authored content has 10 topics and 21 subtopics; the 31 titles all have a
  non-empty slug, and the 31 slugs are pairwise distinct.
\<close>

theorem authored_slugs_unique:
  "length topics = 10 \<and>
   length (all_subtopics topics) = 21 \<and>
   length (all_titles topics) = 31 \<and>
   [] \<notin> set (map slugify (all_titles topics)) \<and>
   distinct (map slugify (all_titles topics))"
proof -
  have n: "length topics = 10"
    using arg_cong [OF authored_outline, of length] by simp
  have m: "length (all_subtopics topics) = 21"
    unfolding all_subtopics_outline authored_outline by simp
  have t: "map slugify (all_titles topics) = map lit
     [''1-array-fundamentals'',
      ''1-1-definition-and-characteristics'',
      ''1-2-compile-time-vs-run-time-size'',
      ''2-declaring-and-initializing-arrays'',
      ''2-1-declaration-syntax'',
      ''2-2-initializer-lists'',
      ''3-memory-layout-and-indexing'',
      ''3-1-using-sizeof-safely'',
      ''3-2-bounds-awareness'',
      ''4-core-operations'',
      ''4-1-traversal-and-aggregation'',
      ''4-2-searching'',
      ''4-3-insertion-and-deletion'',
      ''5-multidimensional-arrays'',
      ''5-1-declaration-and-initialization'',
      ''5-2-passing-multidimensional-arrays'',
      ''6-arrays-and-pointers'',
      ''6-1-decay-and-differences'',
      ''6-2-pointer-arithmetic'',
      ''7-strings-as-character-arrays'',
      ''7-1-initialization-and-literals'',
      ''7-2-iterating-over-strings'',
      ''8-dynamic-arrays'',
      ''8-1-malloc-calloc-and-realloc'',
      ''8-2-flexible-array-members'',
      ''9-arrays-and-functions'',
      ''9-1-function-parameters'',
      ''9-2-returning-arrays'',
      ''10-best-practices-and-common-pitfalls'',
      ''10-1-best-practices-checklist'',
      ''10-2-common-mistakes-to-avoid'']"
    unfolding all_titles_outline authored_outline
    using slugs_1 slugs_2 slugs_3 slugs_4 slugs_5 slugs_6 slugs_7 slugs_8 slugs_9 slugs_10
    by simp
  have d: "distinct (map slugify (all_titles topics))"
    unfolding t by (rule slugs_distinct)
  have e: "[] \<notin> set (map slugify (all_titles topics))"
    unfolding t by (simp add: lit_def)
  have l: "length (all_titles topics) = 31"
    using arg_cong [OF t, of length] by simp
  from n m l e d show ?thesis by simp
qed

end
